theory Spec2Isabelle
  imports Complex_Main
begin

section \<open>Strings as the server uses them\<close>

text \<open>
  Query texts, identifiers and messages are modelled as \<^typ>\<open>string\<close>, one \<^typ>\<open>char\<close> per
  code unit. Case mapping and the regular-expression character classes are modelled on
  the ASCII range (plus the no-break space of Latin-1, which \<^verbatim>\<open>\s\<close> and \<^verbatim>\<open>trim\<close> accept);
  the numbers that appear in messages and keys are integers printed in decimal.
\<close>

definition is_space :: "char \<Rightarrow> bool" where
  "is_space c = (c \<in> set [CHR 0x09, CHR 0x0A, CHR 0x0B, CHR 0x0C, CHR 0x0D, CHR 0x20, CHR 0xA0])"

definition is_line_terminator :: "char \<Rightarrow> bool" where
  "is_line_terminator c = (c = CHR 0x0A \<or> c = CHR 0x0D)"

definition is_word_char :: "char \<Rightarrow> bool" where
  "is_word_char c =
     (c \<in> set ''abcdefghijklmnopqrstuvwxyzABCDEFGHIJKLMNOPQRSTUVWXYZ0123456789_'')"

definition toLowerChar :: "char \<Rightarrow> char" where
  "toLowerChar c =
     (case map_of (zip ''ABCDEFGHIJKLMNOPQRSTUVWXYZ'' ''abcdefghijklmnopqrstuvwxyz'') c of
        Some d \<Rightarrow> d | None \<Rightarrow> c)"

definition toUpperChar :: "char \<Rightarrow> char" where
  "toUpperChar c =
     (case map_of (zip ''abcdefghijklmnopqrstuvwxyz'' ''ABCDEFGHIJKLMNOPQRSTUVWXYZ'') c of
        Some d \<Rightarrow> d | None \<Rightarrow> c)"

definition toLowerCase :: "string \<Rightarrow> string" where
  "toLowerCase s = map toLowerChar s"

definition toUpperCase :: "string \<Rightarrow> string" where
  "toUpperCase s = map toUpperChar s"

definition trim :: "string \<Rightarrow> string" where
  "trim s = rev (dropWhile is_space (rev (dropWhile is_space s)))"

definition startsWith :: "string \<Rightarrow> string \<Rightarrow> bool" where
  "startsWith s p = (take (length p) s = p)"

text \<open>A regular-expression search tries the pattern at every start offset, left to right.\<close>

fun search :: "(string \<Rightarrow> bool) \<Rightarrow> string \<Rightarrow> bool" where
  "search P [] = P []"
| "search P (c # cs) = (P (c # cs) \<or> search P cs)"

definition includes_str :: "string \<Rightarrow> string \<Rightarrow> bool" where
  "includes_str s sub = search (\<lambda>t. startsWith t sub) s"

fun join :: "string \<Rightarrow> string list \<Rightarrow> string" where
  "join sep [] = []"
| "join sep [x] = x"
| "join sep (x # y # ys) = x @ sep @ join sep (y # ys)"

fun show_nat :: "nat \<Rightarrow> string" where
  "show_nat n =
     (if n < 10 then [''0123456789'' ! n]
      else show_nat (n div 10) @ [''0123456789'' ! (n mod 10)])"

declare show_nat.simps [simp del]

definition show_int :: "int \<Rightarrow> string" where
  "show_int i = (if i < 0 then ''-'' @ show_nat (nat (- i)) else show_nat (nat i))"

text \<open>
  \<^verbatim>\<open>s.split(/\s+/)\<close>: the pieces between maximal runs of white space. The flag says that
  the scan is inside a separator; an empty text gives one empty piece.
\<close>

fun split_aux :: "string \<Rightarrow> bool \<Rightarrow> string \<Rightarrow> string list" where
  "split_aux cur sep [] = [rev cur]"
| "split_aux cur sep (c # cs) =
     (if is_space c
      then (if sep then split_aux cur True cs else rev cur # split_aux [] True cs)
      else split_aux (c # cur) False cs)"

definition split_ws :: "string \<Rightarrow> string list" where
  "split_ws s = split_aux [] False s"

definition quote :: string where
  "quote = [CHR 0x27]"

definition backslash :: string where
  "backslash = [CHR 0x5C]"

section \<open>Configuration\<close>

record SecurityConfig =
  enableQueryValidation :: bool
  maxQueryLength :: int
  allowedOperations :: "string list"
  blockedKeywords :: "string list"
  maxRowsPerQuery :: int

record PoolDefaults =
  pool_max :: int
  pool_min :: int
  idleTimeoutMillis :: int

record ConnectionDefaults =
  requestTimeout :: int
  connectionTimeout :: int
  pool_defaults :: PoolDefaults

record Features =
  enableCaching :: bool
  cacheTimeout :: int
  enableMetrics :: bool
  maxConcurrentQueries :: int

record MCPConfig =
  security :: SecurityConfig
  connectionDefaults :: ConnectionDefaults
  features :: Features

definition DEFAULT_CONFIG :: MCPConfig where
  "DEFAULT_CONFIG =
     \<lparr> security =
         \<lparr> enableQueryValidation = True,
           maxQueryLength = 10000,
           allowedOperations = [''SELECT'', ''INSERT'', ''UPDATE'', ''DELETE'', ''WITH''],
           blockedKeywords =
             [''xp_cmdshell'', ''sp_execute'', ''openrowset'', ''opendatasource'', ''bulk'',
              ''exec('', ''execute(''],
           maxRowsPerQuery = 10000 \<rparr>,
       connectionDefaults =
         \<lparr> requestTimeout = 30000,
           connectionTimeout = 15000,
           pool_defaults = \<lparr> pool_max = 10, pool_min = 1, idleTimeoutMillis = 30000 \<rparr> \<rparr>,
       features =
         \<lparr> enableCaching = True, cacheTimeout = 300, enableMetrics = True,
           maxConcurrentQueries = 5 \<rparr> \<rparr>"

text \<open>The override applied when the process runs with \<^verbatim>\<open>NODE_ENV=production\<close>.\<close>

definition PRODUCTION_CONFIG :: MCPConfig where
  "PRODUCTION_CONFIG =
     DEFAULT_CONFIG
       \<lparr> security := (security DEFAULT_CONFIG)
           \<lparr> allowedOperations := [''SELECT''], maxQueryLength := 5000,
             maxRowsPerQuery := 1000 \<rparr>,
         features := (features DEFAULT_CONFIG) \<lparr> maxConcurrentQueries := 3 \<rparr> \<rparr>"

record ConnectionConfig =
  server :: string
  port :: int
  user :: string
  password :: string
  database :: "string option"
  encrypt :: bool
  trustServerCertificate :: bool

section \<open>SecurityValidator\<close>

record ValidationResult =
  isValid :: bool
  errors :: "string list"

subsection \<open>The dangerous patterns\<close>

text \<open>
  Each of the six regular expressions is a search; the functions below say when the
  pattern matches with its first character at the head of the text. All but the two
  comment patterns carry the \<^verbatim>\<open>i\<close> flag. The dot matches any character but a line
  terminator.
\<close>

text \<open>\<^verbatim>\<open>/;\s*(drop|truncate|alter)\s+/i\<close>\<close>

definition at_chained_ddl :: "string \<Rightarrow> bool" where
  "at_chained_ddl t =
     (case t of
        [] \<Rightarrow> False
      | c # r \<Rightarrow>
          c = CHR '';'' \<and>
          (let r' = dropWhile is_space r in
           list_ex (\<lambda>kw. startsWith (toLowerCase r') kw \<and>
                         (case drop (length kw) r' of [] \<Rightarrow> False | d # _ \<Rightarrow> is_space d))
             [''drop'', ''truncate'', ''alter'']))"

text \<open>\<^verbatim>\<open>/union\s+.*select/i\<close>\<close>

definition at_union_select :: "string \<Rightarrow> bool" where
  "at_union_select t =
     (startsWith (toLowerCase t) ''union'' \<and>
      (case drop 5 t of
         [] \<Rightarrow> False
       | d # r \<Rightarrow>
           is_space d \<and>
           includes_str
             (toLowerCase (takeWhile (\<lambda>c. \<not> is_line_terminator c) (dropWhile is_space r)))
             ''select''))"

text \<open>\<^verbatim>\<open>/\/\*.*\*\//g\<close>\<close>

definition at_block_comment :: "string \<Rightarrow> bool" where
  "at_block_comment t =
     (startsWith t ''/*'' \<and>
      includes_str (takeWhile (\<lambda>c. \<not> is_line_terminator c) (drop 2 t)) ''*/'')"

text \<open>
  \<^verbatim>\<open>/--.*$/gm\<close>: after the two dashes the dot runs to the end of the line, where the
  multi-line \<^verbatim>\<open>$\<close> holds, so the pattern matches wherever two dashes stand.
\<close>

definition at_line_comment :: "string \<Rightarrow> bool" where
  "at_line_comment t = startsWith t ''--''"

text \<open>\<^verbatim>\<open>/xp_[\w]+/i\<close> and \<^verbatim>\<open>/sp_[\w]+/i\<close>\<close>

definition at_prefixed_proc :: "string \<Rightarrow> string \<Rightarrow> bool" where
  "at_prefixed_proc pre t =
     (startsWith (toLowerCase t) pre \<and>
      (case drop (length pre) t of [] \<Rightarrow> False | d # _ \<Rightarrow> is_word_char d))"

text \<open>The patterns in the order of the source, each with its \<^verbatim>\<open>source\<close> text.\<close>

definition dangerousPatterns :: "((string \<Rightarrow> bool) \<times> string) list" where
  "dangerousPatterns =
     [(at_chained_ddl,
         '';'' @ backslash @ ''s*(drop|truncate|alter)'' @ backslash @ ''s+''),
      (at_union_select, ''union'' @ backslash @ ''s+.*select''),
      (at_block_comment,
         backslash @ ''/'' @ backslash @ ''*.*'' @ backslash @ ''*'' @ backslash @ ''/''),
      (at_line_comment, ''--.*$''),
      (at_prefixed_proc ''xp_'', ''xp_['' @ backslash @ ''w]+''),
      (at_prefixed_proc ''sp_'', ''sp_['' @ backslash @ ''w]+'')]"

subsection \<open>validateQuery\<close>

definition length_errors :: "SecurityConfig \<Rightarrow> string \<Rightarrow> string list" where
  "length_errors cfg query =
     (if int (length query) > maxQueryLength cfg
      then [''Query exceeds maximum length of '' @ show_int (maxQueryLength cfg) @ '' characters'']
      else [])"

definition blocked_errors :: "SecurityConfig \<Rightarrow> string \<Rightarrow> string list" where
  "blocked_errors cfg query =
     map (\<lambda>keyword. ''Query contains blocked keyword: '' @ keyword)
       (filter (\<lambda>keyword. includes_str (toLowerCase query) (toLowerCase keyword))
          (blockedKeywords cfg))"

definition pattern_errors :: "string \<Rightarrow> string list" where
  "pattern_errors query =
     map (\<lambda>(m, src). ''Query contains potentially dangerous pattern: '' @ src)
       (filter (\<lambda>(m, src). search m query) dangerousPatterns)"

text \<open>
  \<^verbatim>\<open>query.trim().split(/\s+/)[0]?.toUpperCase()\<close>: \<open>None\<close> stands for \<^verbatim>\<open>undefined\<close>.
\<close>

definition firstWord :: "string \<Rightarrow> string option" where
  "firstWord query =
     (case split_ws (trim query) of [] \<Rightarrow> None | w # _ \<Rightarrow> Some (toUpperCase w))"

definition operation_errors :: "SecurityConfig \<Rightarrow> string \<Rightarrow> string list" where
  "operation_errors cfg query =
     (if length (allowedOperations cfg) > 0
      then (case firstWord query of
              None \<Rightarrow> []
            | Some w \<Rightarrow>
                if w \<noteq> [] \<and> w \<notin> set (allowedOperations cfg)
                then [''Operation '' @ quote @ w @ quote @
                      '' is not allowed. Allowed operations: '' @
                      join '', '' (allowedOperations cfg)]
                else [])
      else [])"

definition validateQuery :: "SecurityConfig \<Rightarrow> string \<Rightarrow> ValidationResult" where
  "validateQuery cfg query =
     (if \<not> enableQueryValidation cfg then \<lparr> isValid = True, errors = [] \<rparr>
      else
        (let errors = length_errors cfg query @ blocked_errors cfg query @
                      pattern_errors query @ operation_errors cfg query
         in \<lparr> isValid = (length errors = 0), errors = errors \<rparr>))"

subsection \<open>sanitizeQuery\<close>

text \<open>
  \<^verbatim>\<open>replace(/--.*$/gm, '')\<close>: from two dashes to the end of the line, the line terminator
  kept. The flag says that the scan is inside a comment.
\<close>

fun strip_line_comments :: "bool \<Rightarrow> string \<Rightarrow> string" where
  "strip_line_comments inside [] = []"
| "strip_line_comments True (c # cs) =
     (if is_line_terminator c then c # strip_line_comments False cs
      else strip_line_comments True cs)"
| "strip_line_comments False (c # cs) =
     (if startsWith (c # cs) ''--'' then strip_line_comments True cs
      else c # strip_line_comments False cs)"

text \<open>
  \<^verbatim>\<open>replace(/\/\*.*?\*\//g, '')\<close>: the lazy dot stops at the first \<^verbatim>\<open>*/\<close> on the same line.
  \<open>close_len t\<close> is the number of characters of \<open>t\<close> up to the end of that closing
  mark, when there is one; \<open>strip_block_comments\<close> carries the number of characters still
  to delete.
\<close>

fun close_len :: "string \<Rightarrow> nat option" where
  "close_len [] = None"
| "close_len (c # cs) =
     (if startsWith (c # cs) ''*/'' then Some 2
      else if is_line_terminator c then None
      else map_option Suc (close_len cs))"

fun strip_block_comments :: "nat \<Rightarrow> string \<Rightarrow> string" where
  "strip_block_comments skip [] = []"
| "strip_block_comments (Suc k) (c # cs) = strip_block_comments k cs"
| "strip_block_comments 0 (c # cs) =
     (if startsWith (c # cs) ''/*''
      then (case close_len (tl cs) of
              Some n \<Rightarrow> strip_block_comments (Suc n) cs
            | None \<Rightarrow> c # strip_block_comments 0 cs)
      else c # strip_block_comments 0 cs)"

definition sanitizeQuery :: "string \<Rightarrow> string" where
  "sanitizeQuery query = trim (strip_block_comments 0 (strip_line_comments False query))"

section \<open>Errors\<close>

datatype details =
    NoDetails
  | ValidationDetails "string list"
  | ConnectionDetails string int "string option" string
  | BulkDetails string nat

text \<open>
  \<open>MCPError message code details\<close> is the server's own error class; \<open>ThrownError name
  message\<close> is any other \<^verbatim>\<open>Error\<close> object, raised by the database driver or the runtime.
\<close>

datatype error =
    MCPError string string details
  | ThrownError string string

fun error_message :: "error \<Rightarrow> string" where
  "error_message (MCPError m c d) = m"
| "error_message (ThrownError n m) = m"

fun error_name :: "error \<Rightarrow> string" where
  "error_name (MCPError m c d) = ''MCPError''"
| "error_name (ThrownError n m) = n"

fun error_code :: "error \<Rightarrow> string option" where
  "error_code (MCPError m c d) = Some c"
| "error_code (ThrownError n m) = None"

section \<open>The database client\<close>

datatype jsvalue = JNull | JBool bool | JNum int | JStr string

text \<open>A row object: its own keys in order, each with its value.\<close>

type_synonym row = "(string \<times> jsvalue) list"

text \<open>What \<^verbatim>\<open>request.query\<close> resolves to; \<open>None\<close> is a missing record set.\<close>

record db_result =
  recordset :: "row list option"
  rowsAffected :: "nat list"

record PoolConfig =
  pc_server :: string
  pc_port :: int
  pc_user :: string
  pc_password :: string
  pc_database :: "string option"
  pc_encrypt :: bool
  pc_trustServerCertificate :: bool
  pc_pool :: PoolDefaults
  pc_requestTimeout :: int
  pc_connectionTimeout :: int

text \<open>
  A pool object of the driver: the two liveness flags the server reads, and the
  configuration it was constructed with.
\<close>

record ConnectionPool =
  connected :: bool
  healthy :: bool
  pool_config :: PoolConfig

text \<open>
  Every call that reaches the database is recorded: \<^verbatim>\<open>pool.connect()\<close> and
  \<^verbatim>\<open>request.query(text)\<close> with the inputs bound to the request.
\<close>

datatype db_call =
    Connect PoolConfig
  | Query ConnectionPool string "(string \<times> jsvalue option) list"

text \<open>
  The database is outside the server. Its answers are parameters of the model: each
  may depend on all the calls made before. \<open>connect_answer\<close> gives the error of a failed
  \<^verbatim>\<open>connect\<close>, \<open>query_answer\<close> the error or the result of a query.
\<close>

record database =
  connect_answer :: "db_call list \<Rightarrow> PoolConfig \<Rightarrow> error option"
  query_answer ::
    "db_call list \<Rightarrow> ConnectionPool \<Rightarrow> string \<Rightarrow> (string \<times> jsvalue option) list
       \<Rightarrow> error + db_result"

section \<open>MSSQLMCPServer\<close>

record Metrics =
  totalQueries :: nat
  failedQueries :: nat
  avgExecutionTime :: rat
  connectionCount :: nat
  cacheHits :: nat

text \<open>
  The mutable state of the server object: the pool cache, the metrics, and the record
  of the calls made to the database so far. A handler is modelled as one call run to its
  end, on arguments that \<^verbatim>\<open>ConnectionSchema.parse\<close> has accepted; the counters are natural
  numbers.
\<close>

record ServerState =
  connectionPools :: "string \<rightharpoonup> ConnectionPool"
  metrics :: Metrics
  calls :: "db_call list"

definition initial_state :: ServerState where
  "initial_state =
     \<lparr> connectionPools = Map.empty,
       metrics = \<lparr> totalQueries = 0, failedQueries = 0, avgExecutionTime = 0,
                   connectionCount = 0, cacheHits = 0 \<rparr>,
       calls = [] \<rparr>"

subsection \<open>getConnection\<close>

definition database_or :: "string \<Rightarrow> string option \<Rightarrow> string" where
  "database_or dflt d = (case d of None \<Rightarrow> dflt | Some n \<Rightarrow> if n = [] then dflt else n)"

definition createConnectionKey :: "ConnectionConfig \<Rightarrow> string" where
  "createConnectionKey config =
     server config @ '':'' @ show_int (port config) @ '':'' @ user config @ '':'' @
     database_or ''default'' (database config)"

definition make_poolConfig :: "MCPConfig \<Rightarrow> ConnectionConfig \<Rightarrow> PoolConfig" where
  "make_poolConfig cfg config =
     \<lparr> pc_server = server config,
       pc_port = port config,
       pc_user = user config,
       pc_password = password config,
       pc_database = database config,
       pc_encrypt = encrypt config,
       pc_trustServerCertificate = trustServerCertificate config,
       pc_pool = pool_defaults (connectionDefaults cfg),
       pc_requestTimeout = requestTimeout (connectionDefaults cfg),
       pc_connectionTimeout = connectionTimeout (connectionDefaults cfg) \<rparr>"

text \<open>
  The \<^verbatim>\<open>try\<close> block of \<open>getConnection\<close>. A pool whose \<^verbatim>\<open>connect\<close> has resolved is
  connected and healthy.
\<close>

definition connected_pool :: "PoolConfig \<Rightarrow> ConnectionPool" where
  "connected_pool poolConfig = \<lparr> connected = True, healthy = True, pool_config = poolConfig \<rparr>"

definition open_pool ::
  "database \<Rightarrow> MCPConfig \<Rightarrow> ConnectionConfig \<Rightarrow> string \<Rightarrow> ServerState
     \<Rightarrow> (error + ConnectionPool) \<times> ServerState" where
  "open_pool db cfg config connectionKey s =
     (let poolConfig = make_poolConfig cfg config;
          s1 = s\<lparr>calls := calls s @ [Connect poolConfig]\<rparr>
      in case connect_answer db (calls s) poolConfig of
           None \<Rightarrow>
             (let pool = connected_pool poolConfig
              in (Inr pool,
                  s1\<lparr>connectionPools := (connectionPools s1)(connectionKey \<mapsto> pool),
                     metrics := (metrics s1)\<lparr>connectionCount := connectionCount (metrics s1) + 1\<rparr>\<rparr>))
         | Some err \<Rightarrow>
             (Inl (MCPError (''Failed to connect to database: '' @ error_message err)
                     ''CONNECTION_ERROR''
                     (ConnectionDetails (server config) (port config) (database config)
                        (error_name err))),
              s1\<lparr>metrics := (metrics s1)\<lparr>failedQueries := failedQueries (metrics s1) + 1\<rparr>\<rparr>))"

definition getConnection ::
  "database \<Rightarrow> MCPConfig \<Rightarrow> ConnectionConfig \<Rightarrow> ServerState
     \<Rightarrow> (error + ConnectionPool) \<times> ServerState" where
  "getConnection db cfg config s =
     (let connectionKey = createConnectionKey config
      in case connectionPools s connectionKey of
           Some pool \<Rightarrow>
             if connected pool
             then (Inr pool, s\<lparr>metrics := (metrics s)\<lparr>cacheHits := cacheHits (metrics s) + 1\<rparr>\<rparr>)
             else open_pool db cfg config connectionKey
                    (s\<lparr>connectionPools := (connectionPools s)(connectionKey := None)\<rparr>)
         | None \<Rightarrow> open_pool db cfg config connectionKey s)"

subsection \<open>handleQuery\<close>

record QueryArgs =
  q_connection :: ConnectionConfig
  arg_query :: string
  arg_limit :: "int option"

record QueryResponse =
  r_server :: string
  r_database :: "string option"
  r_query :: string
  r_rowCount :: nat
  r_executionTime :: int
  r_data :: "row list"

text \<open>A template literal prints a missing database name as \<^verbatim>\<open>undefined\<close>.\<close>

definition database_text :: "string option \<Rightarrow> string" where
  "database_text d = (case d of None \<Rightarrow> ''undefined'' | Some n \<Rightarrow> n)"

text \<open>\<^verbatim>\<open>s.replace(/^select\s+/i, repl)\<close>; the replacement holds no dollar sign.\<close>

definition replace_select :: "string \<Rightarrow> string \<Rightarrow> string" where
  "replace_select s repl =
     (if startsWith (toLowerCase s) ''select'' \<and>
         (case drop 6 s of [] \<Rightarrow> False | d # _ \<Rightarrow> is_space d)
      then repl @ dropWhile is_space (drop 6 s)
      else s)"

text \<open>
  The statement that is sent: a \<^verbatim>\<open>TOP\<close> clause is added when the limit is truthy, the
  lower-cased text holds no \<^verbatim>\<open>' top '\<close> and starts with \<^verbatim>\<open>select\<close>.
\<close>

definition finalQuery_of :: "SecurityConfig \<Rightarrow> int \<Rightarrow> string \<Rightarrow> string" where
  "finalQuery_of sec limit sanitizedQuery =
     (let trimmedQuery = toLowerCase (trim sanitizedQuery)
      in if limit \<noteq> 0 \<and> \<not> includes_str trimmedQuery '' top '' \<and>
            startsWith trimmedQuery ''select''
         then replace_select sanitizedQuery
                (''SELECT TOP '' @ show_int (min limit (maxRowsPerQuery sec)) @ '' '')
         else sanitizedQuery)"

text \<open>The \<^verbatim>\<open>catch\<close> block of \<open>handleQuery\<close>: count the failure, throw the same error again.\<close>

definition query_catch :: "error \<Rightarrow> ServerState \<Rightarrow> (error + QueryResponse) \<times> ServerState" where
  "query_catch e s =
     (Inl e, s\<lparr>metrics := (metrics s)\<lparr>failedQueries := failedQueries (metrics s) + 1\<rparr>\<rparr>)"

text \<open>
  One call of \<open>handleQuery\<close>, run to its end. The three clock readings are those of
  \<^verbatim>\<open>Date.now()\<close> at the start, at the update of the metrics and in the response. The
  average is computed in exact arithmetic.
\<close>

definition handleQuery ::
  "database \<Rightarrow> MCPConfig \<Rightarrow> QueryArgs \<Rightarrow> int \<Rightarrow> int \<Rightarrow> int \<Rightarrow> ServerState
     \<Rightarrow> (error + QueryResponse) \<times> ServerState" where
  "handleQuery db cfg args startTime now1 now2 s =
     (let s0 = s\<lparr>metrics := (metrics s)\<lparr>totalQueries := totalQueries (metrics s) + 1\<rparr>\<rparr>;
          config = q_connection args;
          query = arg_query args;
          limit = (case arg_limit args of None \<Rightarrow> 1000 | Some l \<Rightarrow> l);
          validation = validateQuery (security cfg) query
      in if \<not> isValid validation
         then query_catch
                (MCPError (''Query validation failed: '' @ join '', '' (errors validation))
                   ''QUERY_VALIDATION_ERROR'' (ValidationDetails (errors validation)))
                s0
         else
           (let sanitizedQuery = sanitizeQuery query
            in case getConnection db cfg config s0 of
                 (Inl e, s1) \<Rightarrow> query_catch e s1
               | (Inr pool, s1) \<Rightarrow>
                   (let finalQuery = finalQuery_of (security cfg) limit sanitizedQuery;
                        text = ''USE ['' @ database_text (database config) @ '']; '' @ finalQuery;
                        s2 = s1\<lparr>calls := calls s1 @ [Query pool text []]\<rparr>
                    in case query_answer db (calls s1) pool text [] of
                         Inl e \<Rightarrow> query_catch e s2
                       | Inr result \<Rightarrow>
                           (let s3 = s2\<lparr>metrics := (metrics s2)
                                      \<lparr>avgExecutionTime :=
                                         (avgExecutionTime (metrics s2) + of_int (now1 - startTime))
                                         / of_nat (totalQueries (metrics s2))\<rparr>\<rparr>
                            in case recordset result of
                                 None \<Rightarrow>
                                   query_catch
                                     (ThrownError ''TypeError''
                                        ''Cannot read properties of undefined'')
                                     s3
                               | Some rows \<Rightarrow>
                                   (Inr \<lparr> r_server = server config,
                                          r_database = database config,
                                          r_query = finalQuery,
                                          r_rowCount = length rows,
                                          r_executionTime = now2 - startTime,
                                          r_data = rows \<rparr>,
                                    s3)))))"

text \<open>
  Two names for stating properties of \<open>handleQuery\<close>: the state after the first
  statement of the handler, and the text the handler passes to \<^verbatim>\<open>request.query\<close>.
\<close>

definition count_query :: "ServerState \<Rightarrow> ServerState" where
  "count_query s = s\<lparr>metrics := (metrics s)\<lparr>totalQueries := totalQueries (metrics s) + 1\<rparr>\<rparr>"

definition statement_sent :: "MCPConfig \<Rightarrow> QueryArgs \<Rightarrow> string" where
  "statement_sent cfg args =
     ''USE ['' @ database_text (database (q_connection args)) @ '']; '' @
     finalQuery_of (security cfg) (case arg_limit args of None \<Rightarrow> 1000 | Some l \<Rightarrow> l)
       (sanitizeQuery (arg_query args))"

subsection \<open>handleBulkInsert\<close>

record BulkArgs =
  b_connection :: ConnectionConfig
  arg_table :: string
  arg_data :: "row list option"

record BulkReport =
  b_server :: string
  b_database :: "string option"
  b_table :: string
  totalRowsProcessed :: nat
  totalRowsInserted :: nat
  status :: string

definition newline :: string where
  "newline = [CHR 0x0A]"

definition indent :: "nat \<Rightarrow> string" where
  "indent n = replicate n (CHR '' '')"

definition structure_query :: "string option \<Rightarrow> string \<Rightarrow> string" where
  "structure_query d table =
     newline @ indent 8 @ ''USE ['' @ database_text d @ ''];'' @
     newline @ indent 8 @ ''SELECT '' @
     newline @ indent 10 @ ''COLUMN_NAME,'' @
     newline @ indent 10 @ ''DATA_TYPE,'' @
     newline @ indent 10 @ ''IS_NULLABLE,'' @
     newline @ indent 10 @ ''COLUMN_DEFAULT'' @
     newline @ indent 8 @ ''FROM INFORMATION_SCHEMA.COLUMNS '' @
     newline @ indent 8 @ ''WHERE TABLE_NAME = '' @ quote @ table @ quote @
     newline @ indent 8 @ ''ORDER BY ORDINAL_POSITION'' @
     newline @ indent 6"

definition insert_query :: "string option \<Rightarrow> string \<Rightarrow> string \<Rightarrow> string \<Rightarrow> string" where
  "insert_query d table insertColumns batchPlaceholders =
     newline @ indent 10 @ ''USE ['' @ database_text d @ ''];'' @
     newline @ indent 10 @ ''INSERT INTO ['' @ table @ ''] ('' @ insertColumns @ '')'' @
     newline @ indent 10 @ ''VALUES '' @ batchPlaceholders @
     newline @ indent 8"

text \<open>
  \<^verbatim>\<open>insertQuery.replace(/\?/g, ...)\<close>: every question mark becomes \<^verbatim>\<open>@param\<close> followed by
  the number of question marks that stand before it. The first argument is the text
  already passed.
\<close>

fun replace_params :: "string \<Rightarrow> string \<Rightarrow> string" where
  "replace_params seen [] = []"
| "replace_params seen (c # cs) =
     (if c = CHR ''?''
      then ''@param'' @ show_nat (count_list seen (CHR ''?'')) @ replace_params (seen @ [c]) cs
      else c # replace_params (seen @ [c]) cs)"

text \<open>How \<^verbatim>\<open>Array.prototype.join\<close> prints an element; \<open>None\<close> is \<^verbatim>\<open>undefined\<close>.\<close>

fun js_string :: "jsvalue option \<Rightarrow> string" where
  "js_string None = []"
| "js_string (Some JNull) = []"
| "js_string (Some (JBool b)) = (if b then ''true'' else ''false'')"
| "js_string (Some (JNum n)) = show_int n"
| "js_string (Some (JStr t)) = t"

definition batchSize :: nat where
  "batchSize = 100"

definition valuesPlaceholder :: "string list \<Rightarrow> string" where
  "valuesPlaceholder dataColumns = ''('' @ join '', '' (map (\<lambda>_. ''?'') dataColumns) @ '')''"

definition batch_values :: "string list \<Rightarrow> row list \<Rightarrow> jsvalue option list" where
  "batch_values dataColumns batch = concat (map (\<lambda>row. map (\<lambda>col. map_of row col) dataColumns) batch)"

definition batch_inputs :: "jsvalue option list \<Rightarrow> (string \<times> jsvalue option) list" where
  "batch_inputs batchValues =
     map (\<lambda>(index, v). (''param'' @ show_nat index, v)) (enumerate 0 batchValues)"

definition batch_text :: "string option \<Rightarrow> string \<Rightarrow> string list \<Rightarrow> row list \<Rightarrow> string" where
  "batch_text d table dataColumns batch =
     replace_params []
       (insert_query d table (join '', '' dataColumns)
          (join '', '' (map (\<lambda>_. valuesPlaceholder dataColumns) batch)))"

text \<open>\<^verbatim>\<open>result.rowsAffected[0] || 0\<close>\<close>

definition first_affected :: "db_result \<Rightarrow> nat" where
  "first_affected result = (case rowsAffected result of [] \<Rightarrow> 0 | n # _ \<Rightarrow> n)"

text \<open>The call one batch makes: the rewritten statement with its bound inputs.\<close>

definition insert_call ::
  "ConnectionPool \<Rightarrow> string option \<Rightarrow> string \<Rightarrow> string list \<Rightarrow> row list \<Rightarrow> db_call" where
  "insert_call pool d table dataColumns batch =
     Query pool (batch_text d table dataColumns batch)
       (batch_inputs (batch_values dataColumns batch))"

text \<open>
  The batching loop, from index \<open>i\<close> with \<open>totalInserted\<close> rows counted so far. A query
  that fails leaves the loop with its error.
\<close>

function insert_batches ::
  "database \<Rightarrow> ConnectionPool \<Rightarrow> string option \<Rightarrow> string \<Rightarrow> string list \<Rightarrow> row list
     \<Rightarrow> nat \<Rightarrow> nat \<Rightarrow> ServerState \<Rightarrow> (error + nat) \<times> ServerState" where
  "insert_batches db pool d table dataColumns data i totalInserted s =
     (if i < length data
      then
        (let batch = take batchSize (drop i data);
             inputs = batch_inputs (batch_values dataColumns batch);
             finalQuery = batch_text d table dataColumns batch;
             s1 = s\<lparr>calls := calls s @ [Query pool finalQuery inputs]\<rparr>
         in case query_answer db (calls s) pool finalQuery inputs of
              Inl e \<Rightarrow> (Inl e, s1)
            | Inr result \<Rightarrow>
                insert_batches db pool d table dataColumns data (i + batchSize)
                  (totalInserted + first_affected result) s1)
      else (Inr totalInserted, s))"
  by pat_completeness auto
termination
  by (relation "measure (\<lambda>(db, pool, d, table, dataColumns, data, i, totalInserted, s). length data - i)")
     (auto simp: batchSize_def)

declare insert_batches.simps [simp del]

text \<open>The \<^verbatim>\<open>try\<close> block of \<open>handleBulkInsert\<close>.\<close>

definition bulk_try ::
  "database \<Rightarrow> MCPConfig \<Rightarrow> ConnectionConfig \<Rightarrow> string \<Rightarrow> row list \<Rightarrow> ServerState
     \<Rightarrow> (error + BulkReport) \<times> ServerState" where
  "bulk_try db cfg config table data s =
     (case getConnection db cfg config s of
        (Inl e, s1) \<Rightarrow> (Inl e, s1)
      | (Inr pool, s1) \<Rightarrow>
          (let text = structure_query (database config) table;
               s2 = s1\<lparr>calls := calls s1 @ [Query pool text []]\<rparr>
           in case query_answer db (calls s1) pool text [] of
                Inl e \<Rightarrow> (Inl e, s2)
              | Inr structureResult \<Rightarrow>
                  (case recordset structureResult of
                     None \<Rightarrow>
                       (Inl (ThrownError ''TypeError'' ''Cannot read properties of undefined''), s2)
                   | Some columns \<Rightarrow>
                       if length columns = 0
                       then (Inl (MCPError (''Table '' @ quote @ table @ quote @ '' not found'')
                                    ''TABLE_NOT_FOUND'' NoDetails), s2)
                       else
                         (case data of
                            [] \<Rightarrow>
                              (Inl (ThrownError ''TypeError''
                                      ''Cannot convert undefined or null to object''), s2)
                          | firstRow # _ \<Rightarrow>
                              (let columnNames = map (\<lambda>col. map_of col ''COLUMN_NAME'') columns;
                                   dataColumns = map fst firstRow;
                                   invalidColumns =
                                     filter (\<lambda>col. Some (JStr col) \<notin> set columnNames) dataColumns
                               in if length invalidColumns > 0
                                  then (Inl (MCPError
                                               (''Invalid columns: '' @ join '', '' invalidColumns @
                                                ''. Valid columns: '' @
                                                join '', '' (map js_string columnNames))
                                               ''INVALID_COLUMNS'' NoDetails), s2)
                                  else
                                    (case insert_batches db pool (database config) table
                                            dataColumns data 0 0 s2 of
                                       (Inl e, s3) \<Rightarrow> (Inl e, s3)
                                     | (Inr totalInserted, s3) \<Rightarrow>
                                         (Inr \<lparr> b_server = server config,
                                                b_database = database config,
                                                b_table = table,
                                                totalRowsProcessed = length data,
                                                totalRowsInserted = totalInserted,
                                                status = ''success'' \<rparr>,
                                          s3)))))))"

text \<open>
  \<open>handleBulkInsert\<close>; \<open>arg_data = None\<close> stands for a \<^verbatim>\<open>data\<close> argument that is not an
  array. The \<^verbatim>\<open>catch\<close> block wraps whatever the \<^verbatim>\<open>try\<close> block throws.
\<close>

definition handleBulkInsert ::
  "database \<Rightarrow> MCPConfig \<Rightarrow> BulkArgs \<Rightarrow> ServerState \<Rightarrow> (error + BulkReport) \<times> ServerState" where
  "handleBulkInsert db cfg args s =
     (let config = b_connection args;
          table = arg_table args
      in case arg_data args of
           None \<Rightarrow> (Inl (MCPError ''Data must be a non-empty array'' ''INVALID_DATA'' NoDetails), s)
         | Some data \<Rightarrow>
             if length data = 0
             then (Inl (MCPError ''Data must be a non-empty array'' ''INVALID_DATA'' NoDetails), s)
             else
               (case bulk_try db cfg config table data s of
                  (Inl e, s') \<Rightarrow>
                    (Inl (MCPError (''Bulk insert failed: '' @ error_message e)
                            ''BULK_INSERT_ERROR'' (BulkDetails table (length data))), s')
                | (Inr report, s') \<Rightarrow> (Inr report, s')))"

section \<open>Example inputs\<close>

definition example_connection :: ConnectionConfig where
  "example_connection =
     \<lparr> server = ''db1'', port = 1433, user = ''sa'', password = ''pw'',
       database = Some ''shop'', encrypt = True, trustServerCertificate = True \<rparr>"

text \<open>
  A database that accepts every connection and answers every query with the two column
  rows of a table \<^verbatim>\<open>(id, name)\<close>, counting one affected row per bound input.
\<close>

definition accepting_database :: database where
  "accepting_database =
     \<lparr> connect_answer = (\<lambda>history poolConfig. None),
       query_answer = (\<lambda>history pool text inputs.
          Inr \<lparr> recordset = Some [[(''COLUMN_NAME'', JStr ''id'')], [(''COLUMN_NAME'', JStr ''name'')]],
                rowsAffected = [length inputs] \<rparr>) \<rparr>"

text \<open>A database that accepts every connection and fails every query.\<close>

definition failing_database :: database where
  "failing_database =
     \<lparr> connect_answer = (\<lambda>history poolConfig. None),
       query_answer = (\<lambda>history pool text inputs.
          Inl (ThrownError ''RequestError'' ''Invalid object name'')) \<rparr>"

text \<open>A database that refuses every connection.\<close>

definition unreachable_database :: database where
  "unreachable_database =
     \<lparr> connect_answer = (\<lambda>history poolConfig.
          Some (ThrownError ''ConnectionError'' ''Failed to connect'')),
       query_answer = (\<lambda>history pool text inputs.
          Inl (ThrownError ''RequestError'' ''Not connected'')) \<rparr>"

definition other_password_connection :: ConnectionConfig where
  "other_password_connection =
     example_connection
       \<lparr> password := ''guess'', encrypt := False, trustServerCertificate := False \<rparr>"

definition stale_pool :: ConnectionPool where
  "stale_pool =
     \<lparr> connected = False, healthy = False,
       pool_config = make_poolConfig DEFAULT_CONFIG example_connection \<rparr>"

definition stale_state :: ServerState where
  "stale_state =
     initial_state
       \<lparr> connectionPools := [createConnectionKey example_connection \<mapsto> stale_pool] \<rparr>"

definition select_query_args :: QueryArgs where
  "select_query_args =
     \<lparr> q_connection = example_connection, arg_query = ''SELECT * FROM Customers'',
       arg_limit = Some 5 \<rparr>"

definition top_query_args :: QueryArgs where
  "top_query_args =
     \<lparr> q_connection = example_connection, arg_query = ''SELECT TOP 50000 * FROM Customers'',
       arg_limit = Some 1 \<rparr>"

definition zero_limit_args :: QueryArgs where
  "zero_limit_args =
     \<lparr> q_connection = example_connection, arg_query = ''SELECT * FROM Customers'',
       arg_limit = Some 0 \<rparr>"

definition bogus_bulk_args :: BulkArgs where
  "bogus_bulk_args =
     \<lparr> b_connection = example_connection, arg_table = ''t'',
       arg_data = Some [[(''id'', JNum 1), (''bogus'', JStr ''a'')], [(''id'', JNum 2)]] \<rparr>"

definition many_rows :: "row list" where
  "many_rows = replicate 250 [(''id'', JNum 1)]"

definition many_rows_args :: BulkArgs where
  "many_rows_args =
     \<lparr> b_connection = example_connection, arg_table = ''t'', arg_data = Some many_rows \<rparr>"

definition busy_state :: ServerState where
  "busy_state =
     initial_state
       \<lparr> metrics := \<lparr> totalQueries = 2, failedQueries = 0, avgExecutionTime = 40,
                      connectionCount = 0, cacheHits = 0 \<rparr> \<rparr>"

definition unvalidated_security :: SecurityConfig where
  "unvalidated_security = (security DEFAULT_CONFIG) \<lparr>enableQueryValidation := False\<rparr>"

definition empty_bulk_args :: BulkArgs where
  "empty_bulk_args = \<lparr> b_connection = example_connection, arg_table = ''t'', arg_data = Some [] \<rparr>"

definition not_array_bulk_args :: BulkArgs where
  "not_array_bulk_args = \<lparr> b_connection = example_connection, arg_table = ''t'', arg_data = None \<rparr>"

definition drop_query_args :: QueryArgs where
  "drop_query_args =
     \<lparr> q_connection = example_connection, arg_query = ''DROP TABLE X'', arg_limit = Some 5 \<rparr>"

section \<open>The security validator\<close>

text \<open>
  Claim C7. When the policy has query validation switched off, \<open>validateQuery\<close> answers
  valid with an empty error list for every query text: none of the length, blocked
  keyword, dangerous pattern or leading keyword checks is applied.
\<close>

theorem validateQuery_disabled:
  "\<not> enableQueryValidation cfg \<Longrightarrow> validateQuery cfg query = \<lparr> isValid = True, errors = [] \<rparr>"
  by (simp add: validateQuery_def)

theorem validateQuery_disabled_witness:
  "\<not> enableQueryValidation unvalidated_security \<and>
   validateQuery unvalidated_security ''DROP TABLE X; exec xp_cmdshell'' =
     \<lparr> isValid = True, errors = [] \<rparr>"
  using validateQuery_disabled [of unvalidated_security "''DROP TABLE X; exec xp_cmdshell''"]
  by (simp add: unvalidated_security_def)

text \<open>
  Claim C6. With validation enabled and a non-empty list of allowed operations, a query
  whose first white-space delimited token, upper-cased, is not in the list is invalid,
  and the error list holds the message that names the token and the allowed list. (A
  query with no token at all, empty or all white space, has no first word to reject.)
\<close>

theorem validateQuery_operation_not_allowed:
  assumes "enableQueryValidation cfg" and "allowedOperations cfg \<noteq> []"
    and "firstWord query = Some w" and "w \<noteq> []" and "w \<notin> set (allowedOperations cfg)"
  shows "\<not> isValid (validateQuery cfg query) \<and>
         (''Operation '' @ quote @ w @ quote @ '' is not allowed. Allowed operations: '' @
            join '', '' (allowedOperations cfg)) \<in> set (errors (validateQuery cfg query))"
  using assms by (simp add: validateQuery_def operation_errors_def Let_def)

lemma firstWord_DROP: "firstWord ''DROP TABLE X'' = Some ''DROP''"
  by (simp add: firstWord_def split_ws_def trim_def is_space_def toUpperCase_def toUpperChar_def)

theorem validateQuery_operation_not_allowed_witness:
  "enableQueryValidation (security PRODUCTION_CONFIG) \<and>
   allowedOperations (security PRODUCTION_CONFIG) \<noteq> [] \<and>
   firstWord ''DROP TABLE X'' = Some ''DROP'' \<and> ''DROP'' \<noteq> [] \<and>
   ''DROP'' \<notin> set (allowedOperations (security PRODUCTION_CONFIG)) \<and>
   \<not> isValid (validateQuery (security PRODUCTION_CONFIG) ''DROP TABLE X'') \<and>
   (''Operation '' @ quote @ ''DROP'' @ quote @ '' is not allowed. Allowed operations: SELECT'')
     \<in> set (errors (validateQuery (security PRODUCTION_CONFIG) ''DROP TABLE X''))"
  using validateQuery_operation_not_allowed
    [of "security PRODUCTION_CONFIG" "''DROP TABLE X''" "''DROP''"] firstWord_DROP
  by (simp add: PRODUCTION_CONFIG_def DEFAULT_CONFIG_def)

text \<open>
  A text with no token, empty or all white space, has the empty first word, which the
  check skips: such a text passes even the production policy.
\<close>

lemma validateQuery_no_token:
  "firstWord ''  '' = Some [] \<and>
   validateQuery (security PRODUCTION_CONFIG) ''  '' = \<lparr> isValid = True, errors = [] \<rparr>"
  by code_simp

section \<open>Rejected input\<close>

text \<open>
  Claim C9. A bulk insert whose \<open>data\<close> is an empty array, or not an array, fails with
  the server's \<^verbatim>\<open>INVALID_DATA\<close> error and leaves the state as it was: no connection is
  looked up or opened, no schema query and no insert is sent, whatever the database would
  have answered.
\<close>

theorem handleBulkInsert_empty:
  assumes "arg_data args = None \<or> arg_data args = Some []"
  shows "handleBulkInsert db cfg args s =
           (Inl (MCPError ''Data must be a non-empty array'' ''INVALID_DATA'' NoDetails), s) \<and>
         calls (snd (handleBulkInsert db cfg args s)) = calls s"
  using assms by (auto simp: handleBulkInsert_def)

theorem handleBulkInsert_empty_witness:
  "(arg_data empty_bulk_args = None \<or> arg_data empty_bulk_args = Some []) \<and>
   handleBulkInsert accepting_database DEFAULT_CONFIG empty_bulk_args initial_state =
     (Inl (MCPError ''Data must be a non-empty array'' ''INVALID_DATA'' NoDetails), initial_state) \<and>
   calls (snd (handleBulkInsert accepting_database DEFAULT_CONFIG empty_bulk_args initial_state)) = [] \<and>
   (arg_data not_array_bulk_args = None \<or> arg_data not_array_bulk_args = Some []) \<and>
   handleBulkInsert accepting_database DEFAULT_CONFIG not_array_bulk_args initial_state =
     (Inl (MCPError ''Data must be a non-empty array'' ''INVALID_DATA'' NoDetails), initial_state)"
  using handleBulkInsert_empty
    [of empty_bulk_args accepting_database DEFAULT_CONFIG initial_state]
    handleBulkInsert_empty
    [of not_array_bulk_args accepting_database DEFAULT_CONFIG initial_state]
  by (simp add: empty_bulk_args_def not_array_bulk_args_def initial_state_def)

text \<open>
  Claim C5. When the validator rejects the query text, \<open>handleQuery\<close> raises the
  \<^verbatim>\<open>QUERY_VALIDATION_ERROR\<close> whose message and details carry the whole error list. The
  pool cache and the record of database calls are as before: no connection was acquired
  and no query was sent. Only the two counters of the metrics have moved.
\<close>

theorem handleQuery_rejected:
  assumes "\<not> isValid (validateQuery (security cfg) (arg_query args))"
  shows "handleQuery db cfg args startTime now1 now2 s =
           (Inl (MCPError
                   (''Query validation failed: '' @
                     join '', '' (errors (validateQuery (security cfg) (arg_query args))))
                   ''QUERY_VALIDATION_ERROR''
                   (ValidationDetails (errors (validateQuery (security cfg) (arg_query args))))),
            s\<lparr>metrics := (metrics s)
                 \<lparr>totalQueries := totalQueries (metrics s) + 1,
                  failedQueries := failedQueries (metrics s) + 1\<rparr>\<rparr>) \<and>
         calls (snd (handleQuery db cfg args startTime now1 now2 s)) = calls s \<and>
         connectionPools (snd (handleQuery db cfg args startTime now1 now2 s)) = connectionPools s"
  using assms by (simp add: handleQuery_def query_catch_def Let_def)

lemma DROP_rejected:
  "validateQuery (security PRODUCTION_CONFIG) ''DROP TABLE X'' =
     \<lparr> isValid = False,
       errors = [''Operation '' @ quote @ ''DROP'' @ quote @
                 '' is not allowed. Allowed operations: SELECT''] \<rparr>"
  by code_simp

theorem handleQuery_rejected_witness:
  "\<not> isValid (validateQuery (security PRODUCTION_CONFIG) (arg_query drop_query_args)) \<and>
   fst (handleQuery accepting_database PRODUCTION_CONFIG drop_query_args 100 130 131 initial_state) =
     Inl (MCPError
            (''Query validation failed: Operation '' @ quote @ ''DROP'' @ quote @
              '' is not allowed. Allowed operations: SELECT'')
            ''QUERY_VALIDATION_ERROR''
            (ValidationDetails
               [''Operation '' @ quote @ ''DROP'' @ quote @
                '' is not allowed. Allowed operations: SELECT''])) \<and>
   calls (snd (handleQuery accepting_database PRODUCTION_CONFIG drop_query_args 100 130 131
                 initial_state)) = []"
  using handleQuery_rejected
    [of PRODUCTION_CONFIG drop_query_args accepting_database 100 130 131 initial_state]
    DROP_rejected
  by (simp add: drop_query_args_def initial_state_def)

section \<open>The connection registry\<close>

lemma open_pool_Inr:
  assumes "open_pool db cfg config k s = (Inr pool, s')"
  shows "pool = connected_pool (make_poolConfig cfg config)"
    and "connectionPools s' = (connectionPools s)(k \<mapsto> pool)"
    and "calls s' = calls s @ [Connect (make_poolConfig cfg config)]"
    and "metrics s' = (metrics s)\<lparr>connectionCount := connectionCount (metrics s) + 1\<rparr>"
    and "connect_answer db (calls s) (make_poolConfig cfg config) = None"
  using assms by (auto simp: open_pool_def Let_def split: option.splits)

lemma open_pool_ok:
  assumes "connect_answer db (calls s) (make_poolConfig cfg config) = None"
  shows "open_pool db cfg config k s =
           (Inr (connected_pool (make_poolConfig cfg config)),
            s\<lparr>calls := calls s @ [Connect (make_poolConfig cfg config)],
              connectionPools := (connectionPools s)
                 (k \<mapsto> connected_pool (make_poolConfig cfg config)),
              metrics := (metrics s)\<lparr>connectionCount := connectionCount (metrics s) + 1\<rparr>\<rparr>)"
  using assms by (simp add: open_pool_def Let_def)

lemma open_pool_Inl:
  assumes "open_pool db cfg config k s = (Inl e, s')"
  shows "connectionPools s' = connectionPools s"
    and "calls s' = calls s @ [Connect (make_poolConfig cfg config)]"
    and "metrics s' = (metrics s)\<lparr>failedQueries := failedQueries (metrics s) + 1\<rparr>"
  using assms by (auto simp: open_pool_def Let_def split: option.splits)

lemma getConnection_hit:
  assumes "connectionPools s (createConnectionKey config) = Some pool" and "connected pool"
  shows "getConnection db cfg config s =
           (Inr pool, s\<lparr>metrics := (metrics s)\<lparr>cacheHits := cacheHits (metrics s) + 1\<rparr>\<rparr>)"
  using assms by (simp add: getConnection_def)

lemma getConnection_stale:
  assumes "connectionPools s (createConnectionKey config) = Some pool" and "\<not> connected pool"
  shows "getConnection db cfg config s =
           open_pool db cfg config (createConnectionKey config)
             (s\<lparr>connectionPools := (connectionPools s)(createConnectionKey config := None)\<rparr>)"
  using assms by (simp add: getConnection_def Let_def)

lemma getConnection_Inr:
  assumes "getConnection db cfg config s = (Inr pool, s')"
  shows "connected pool" and "connectionPools s' (createConnectionKey config) = Some pool"
  using assms
  by (auto simp: getConnection_def Let_def connected_pool_def
           split: option.splits if_splits dest: open_pool_Inr)

lemma getConnection_fresh_password:
  assumes "getConnection db cfg config s = (Inr pool, s')"
    and "connectionPools s (createConnectionKey config) = None"
  shows "pc_password (pool_config pool) = password config"
  using assms
  by (auto simp: getConnection_def Let_def make_poolConfig_def connected_pool_def
           dest!: open_pool_Inr(1))

lemma createConnectionKey_cong:
  assumes "server c2 = server c1" and "port c2 = port c1" and "user c2 = user c1"
    and "database_or ''default'' (database c2) = database_or ''default'' (database c1)"
  shows "createConnectionKey c2 = createConnectionKey c1"
  using assms by (simp add: createConnectionKey_def)

text \<open>
  Claim C2. For a configuration with key \<open>k\<close>: a cached pool that is connected (healthy
  or not: only \<^verbatim>\<open>connected\<close> is read) is returned as it is and the cache-hit counter goes
  up by one. A cached pool that is disconnected is never the result and is no longer
  cached under \<open>k\<close> afterwards; when the fresh connection opens, the new connected pool is
  returned, registered under \<open>k\<close>, and the connections-created counter goes up by one.
  Whatever pool \<open>getConnection\<close> returns is connected and is the cached one, so a second
  call whose configuration has the same key gets that same pool, with one more cache hit.
\<close>

theorem getConnection_cache:
  "(connectionPools s (createConnectionKey config) = Some pool \<and> connected pool \<longrightarrow>
      getConnection db cfg config s =
        (Inr pool, s\<lparr>metrics := (metrics s)\<lparr>cacheHits := cacheHits (metrics s) + 1\<rparr>\<rparr>)) \<and>
   (connectionPools s (createConnectionKey config) = Some pool \<and> \<not> connected pool \<longrightarrow>
      fst (getConnection db cfg config s) \<noteq> Inr pool \<and>
      connectionPools (snd (getConnection db cfg config s)) (createConnectionKey config)
        \<noteq> Some pool \<and>
      (connect_answer db (calls s) (make_poolConfig cfg config) = None \<longrightarrow>
         getConnection db cfg config s =
           (Inr (connected_pool (make_poolConfig cfg config)),
            s\<lparr>calls := calls s @ [Connect (make_poolConfig cfg config)],
              connectionPools := (connectionPools s)
                (createConnectionKey config \<mapsto> connected_pool (make_poolConfig cfg config)),
              metrics := (metrics s)\<lparr>connectionCount := connectionCount (metrics s) + 1\<rparr>\<rparr>))) \<and>
   (getConnection db cfg config s = (Inr q, s') \<longrightarrow>
      connected q \<and> connectionPools s' (createConnectionKey config) = Some q) \<and>
   (createConnectionKey config2 = createConnectionKey config \<and>
    getConnection db cfg config s = (Inr q, s') \<longrightarrow>
      getConnection db2 cfg config2 s' =
        (Inr q, s'\<lparr>metrics := (metrics s')\<lparr>cacheHits := cacheHits (metrics s') + 1\<rparr>\<rparr>))"
proof (intro conjI impI)
  assume "connectionPools s (createConnectionKey config) = Some pool \<and> connected pool"
  then show "getConnection db cfg config s =
        (Inr pool, s\<lparr>metrics := (metrics s)\<lparr>cacheHits := cacheHits (metrics s) + 1\<rparr>\<rparr>)"
    by (simp add: getConnection_hit)
next
  assume stale: "connectionPools s (createConnectionKey config) = Some pool \<and> \<not> connected pool"
  obtain r t where rt: "getConnection db cfg config s = (r, t)"
    by (cases "getConnection db cfg config s")
  show "fst (getConnection db cfg config s) \<noteq> Inr pool"
  proof
    assume "fst (getConnection db cfg config s) = Inr pool"
    with rt have "getConnection db cfg config s = (Inr pool, t)" by simp
    then have "connected pool" by (rule getConnection_Inr(1))
    with stale show False by simp
  qed
  show "connectionPools (snd (getConnection db cfg config s)) (createConnectionKey config)
        \<noteq> Some pool"
  proof (cases r)
    case (Inl e)
    with rt stale have "open_pool db cfg config (createConnectionKey config)
             (s\<lparr>connectionPools := (connectionPools s)(createConnectionKey config := None)\<rparr>) = (Inl e, t)"
      by (simp add: getConnection_stale)
    then have "connectionPools t = (connectionPools s)(createConnectionKey config := None)"
      by (auto dest: open_pool_Inl(1))
    with rt show ?thesis by simp
  next
    case (Inr q)
    with rt have "connected q" "connectionPools t (createConnectionKey config) = Some q"
      by (auto dest: getConnection_Inr)
    with rt stale show ?thesis by auto
  qed
next
  assume stale: "connectionPools s (createConnectionKey config) = Some pool \<and> \<not> connected pool"
    and ok: "connect_answer db (calls s) (make_poolConfig cfg config) = None"
  show "getConnection db cfg config s =
           (Inr (connected_pool (make_poolConfig cfg config)),
            s\<lparr>calls := calls s @ [Connect (make_poolConfig cfg config)],
              connectionPools := (connectionPools s)
                (createConnectionKey config \<mapsto> connected_pool (make_poolConfig cfg config)),
              metrics := (metrics s)\<lparr>connectionCount := connectionCount (metrics s) + 1\<rparr>\<rparr>)"
    using stale ok by (simp add: getConnection_stale open_pool_ok)
next
  assume "getConnection db cfg config s = (Inr q, s')"
  then show "connected q" by (rule getConnection_Inr(1))
next
  assume "getConnection db cfg config s = (Inr q, s')"
  then show "connectionPools s' (createConnectionKey config) = Some q"
    by (rule getConnection_Inr(2))
next
  assume a: "createConnectionKey config2 = createConnectionKey config \<and>
    getConnection db cfg config s = (Inr q, s')"
  then have "connected q" "connectionPools s' (createConnectionKey config2) = Some q"
    by (auto dest: getConnection_Inr)
  then show "getConnection db2 cfg config2 s' =
        (Inr q, s'\<lparr>metrics := (metrics s')\<lparr>cacheHits := cacheHits (metrics s') + 1\<rparr>\<rparr>)"
    by (simp add: getConnection_hit)
qed

theorem getConnection_cache_witness:
  "connectionPools stale_state (createConnectionKey example_connection) = Some stale_pool \<and>
   \<not> connected stale_pool \<and>
   connect_answer accepting_database (calls stale_state)
     (make_poolConfig DEFAULT_CONFIG example_connection) = None \<and>
   createConnectionKey other_password_connection = createConnectionKey example_connection \<and>
   getConnection accepting_database DEFAULT_CONFIG example_connection stale_state =
     (Inr (connected_pool (make_poolConfig DEFAULT_CONFIG example_connection)),
      stale_state
        \<lparr>calls := calls stale_state @ [Connect (make_poolConfig DEFAULT_CONFIG example_connection)],
         connectionPools := (connectionPools stale_state)
           (createConnectionKey example_connection \<mapsto>
              connected_pool (make_poolConfig DEFAULT_CONFIG example_connection)),
         metrics := (metrics stale_state)
           \<lparr>connectionCount := connectionCount (metrics stale_state) + 1\<rparr>\<rparr>) \<and>
   connected (connected_pool (make_poolConfig DEFAULT_CONFIG example_connection)) \<and>
   fst (getConnection unreachable_database DEFAULT_CONFIG other_password_connection
     (snd (getConnection accepting_database DEFAULT_CONFIG example_connection stale_state))) =
     Inr (connected_pool (make_poolConfig DEFAULT_CONFIG example_connection)) \<and>
   cacheHits (metrics (snd (getConnection unreachable_database DEFAULT_CONFIG
     other_password_connection
     (snd (getConnection accepting_database DEFAULT_CONFIG example_connection stale_state))))) = 1 \<and>
   connectionPools
     (snd (getConnection accepting_database DEFAULT_CONFIG example_connection stale_state))
     (createConnectionKey example_connection) =
     Some (connected_pool (make_poolConfig DEFAULT_CONFIG example_connection)) \<and>
   fst (getConnection unreachable_database DEFAULT_CONFIG example_connection
     (snd (getConnection accepting_database DEFAULT_CONFIG example_connection stale_state))) =
     Inr (connected_pool (make_poolConfig DEFAULT_CONFIG example_connection))"
proof -
  let ?fresh = "connected_pool (make_poolConfig DEFAULT_CONFIG example_connection)"
  let ?s1 = "stale_state
        \<lparr>calls := calls stale_state @ [Connect (make_poolConfig DEFAULT_CONFIG example_connection)],
         connectionPools := (connectionPools stale_state)
           (createConnectionKey example_connection \<mapsto> ?fresh),
         metrics := (metrics stale_state)
           \<lparr>connectionCount := connectionCount (metrics stale_state) + 1\<rparr>\<rparr>"
  note cache = getConnection_cache
    [where s = stale_state and config = example_connection and pool = stale_pool
       and db = accepting_database and cfg = DEFAULT_CONFIG
       and ?config2.0 = other_password_connection and ?db2.0 = unreachable_database
       and q = ?fresh and s' = ?s1]
  have cached: "connectionPools stale_state (createConnectionKey example_connection) = Some stale_pool"
    by (simp add: stale_state_def)
  have dead: "\<not> connected stale_pool"
    by (simp add: stale_pool_def)
  have opens: "connect_answer accepting_database (calls stale_state)
     (make_poolConfig DEFAULT_CONFIG example_connection) = None"
    by (simp add: accepting_database_def)
  have key: "createConnectionKey other_password_connection = createConnectionKey example_connection"
    by (simp add: createConnectionKey_def other_password_connection_def)
  have first: "getConnection accepting_database DEFAULT_CONFIG example_connection stale_state =
      (Inr ?fresh, ?s1)"
    using cache cached dead opens by blast
  have live: "connected ?fresh"
    using cache first by blast
  have second: "getConnection unreachable_database DEFAULT_CONFIG other_password_connection ?s1 =
      (Inr ?fresh, ?s1\<lparr>metrics := (metrics ?s1)\<lparr>cacheHits := cacheHits (metrics ?s1) + 1\<rparr>\<rparr>)"
    using cache key first by blast
  have zero: "cacheHits (metrics stale_state) = 0"
    by (simp add: stale_state_def initial_state_def)
  note reuse = getConnection_cache
    [where s = ?s1 and config = example_connection and pool = ?fresh
       and db = unreachable_database and cfg = DEFAULT_CONFIG]
  have registered: "connectionPools ?s1 (createConnectionKey example_connection) = Some ?fresh"
    by simp
  have third: "getConnection unreachable_database DEFAULT_CONFIG example_connection ?s1 =
      (Inr ?fresh, ?s1\<lparr>metrics := (metrics ?s1)\<lparr>cacheHits := cacheHits (metrics ?s1) + 1\<rparr>\<rparr>)"
    using reuse registered live by blast
  show ?thesis
    using cached dead opens key first live second zero registered third by simp
qed

text \<open>
  Claim C10. The key is built from server, port, user and database-or-default alone:
  configurations that agree on these have the same key, whatever their password and
  encryption flags. So after a first call has returned a pool, and while that pool is
  still the cached one, a second call that agrees on the four fields gets the same pool:
  the database is not consulted (no call is recorded), and the pool, when the first call
  opened it, carries the first call's password.
\<close>

theorem getConnection_ignores_password:
  assumes same: "server c2 = server c1" "port c2 = port c1" "user c2 = user c1"
      "database_or ''default'' (database c2) = database_or ''default'' (database c1)"
    and first: "getConnection db cfg c1 s = (Inr pool, s1)"
    and still: "connectionPools s2 (createConnectionKey c1) = Some pool"
  shows "createConnectionKey c2 = createConnectionKey c1 \<and>
         createConnectionKey (c1\<lparr>password := p, encrypt := e, trustServerCertificate := t\<rparr>) =
           createConnectionKey c1 \<and>
         getConnection db2 cfg c2 s2 =
           (Inr pool, s2\<lparr>metrics := (metrics s2)\<lparr>cacheHits := cacheHits (metrics s2) + 1\<rparr>\<rparr>) \<and>
         calls (snd (getConnection db2 cfg c2 s2)) = calls s2 \<and>
         (connectionPools s (createConnectionKey c1) = None \<longrightarrow>
            pc_password (pool_config pool) = password c1)"
proof -
  have key: "createConnectionKey c2 = createConnectionKey c1"
    using same by (rule createConnectionKey_cong)
  have live: "connected pool"
    using first by (rule getConnection_Inr(1))
  have hit: "getConnection db2 cfg c2 s2 =
           (Inr pool, s2\<lparr>metrics := (metrics s2)\<lparr>cacheHits := cacheHits (metrics s2) + 1\<rparr>\<rparr>)"
    using still live key by (simp add: getConnection_hit)
  have pw: "connectionPools s (createConnectionKey c1) = None \<longrightarrow>
            pc_password (pool_config pool) = password c1"
    using first by (auto dest: getConnection_fresh_password)
  show ?thesis
    using key hit pw by (simp add: createConnectionKey_def)
qed

lemma first_connection:
  "getConnection accepting_database DEFAULT_CONFIG example_connection initial_state =
     (Inr (connected_pool (make_poolConfig DEFAULT_CONFIG example_connection)),
      initial_state
        \<lparr>calls := [Connect (make_poolConfig DEFAULT_CONFIG example_connection)],
         connectionPools := [createConnectionKey example_connection \<mapsto>
            connected_pool (make_poolConfig DEFAULT_CONFIG example_connection)],
         metrics := (metrics initial_state)\<lparr>connectionCount := 1\<rparr>\<rparr>)"
  by (simp add: getConnection_def open_pool_def Let_def initial_state_def accepting_database_def)

theorem getConnection_ignores_password_witness:
  "server other_password_connection = server example_connection \<and>
   port other_password_connection = port example_connection \<and>
   user other_password_connection = user example_connection \<and>
   database_or ''default'' (database other_password_connection) =
     database_or ''default'' (database example_connection) \<and>
   password other_password_connection \<noteq> password example_connection \<and>
   fst (getConnection accepting_database DEFAULT_CONFIG example_connection initial_state) =
     Inr (connected_pool (make_poolConfig DEFAULT_CONFIG example_connection)) \<and>
   fst (getConnection unreachable_database DEFAULT_CONFIG other_password_connection
          (snd (getConnection accepting_database DEFAULT_CONFIG example_connection initial_state))) =
     Inr (connected_pool (make_poolConfig DEFAULT_CONFIG example_connection)) \<and>
   calls (snd (getConnection unreachable_database DEFAULT_CONFIG other_password_connection
          (snd (getConnection accepting_database DEFAULT_CONFIG example_connection initial_state)))) =
     [Connect (make_poolConfig DEFAULT_CONFIG example_connection)] \<and>
   pc_password (pool_config (connected_pool (make_poolConfig DEFAULT_CONFIG example_connection))) = ''pw''"
  using getConnection_ignores_password
    [where ?c1.0 = example_connection and ?c2.0 = other_password_connection
       and db = accepting_database and cfg = DEFAULT_CONFIG and s = initial_state
       and pool = "connected_pool (make_poolConfig DEFAULT_CONFIG example_connection)"
       and ?s1.0 = "snd (getConnection accepting_database DEFAULT_CONFIG example_connection initial_state)"
       and ?s2.0 = "snd (getConnection accepting_database DEFAULT_CONFIG example_connection initial_state)"
       and ?db2.0 = unreachable_database]
    first_connection
  by (simp add: other_password_connection_def example_connection_def initial_state_def)

section \<open>Query execution and the metrics\<close>

lemma getConnection_metrics:
  assumes "getConnection db cfg config s = (r, s')"
  shows "totalQueries (metrics s') = totalQueries (metrics s)"
    and "avgExecutionTime (metrics s') = avgExecutionTime (metrics s)"
    and "failedQueries (metrics s') = failedQueries (metrics s) + (if isl r then 1 else 0)"
  using assms
  by (auto simp: getConnection_def open_pool_def Let_def split: option.splits if_splits)

lemma handleQuery_unfold:
  assumes "isValid (validateQuery (security cfg) (arg_query args))"
    and "getConnection db cfg (q_connection args) (count_query s) = (Inr pool, s1)"
  shows "handleQuery db cfg args startTime now1 now2 s =
     (let s2 = s1\<lparr>calls := calls s1 @ [Query pool (statement_sent cfg args) []]\<rparr>
      in case query_answer db (calls s1) pool (statement_sent cfg args) [] of
           Inl e \<Rightarrow> query_catch e s2
         | Inr result \<Rightarrow>
            (let s3 = s2\<lparr>metrics := (metrics s2)
                         \<lparr>avgExecutionTime :=
                            (avgExecutionTime (metrics s2) + of_int (now1 - startTime))
                            / of_nat (totalQueries (metrics s2))\<rparr>\<rparr>
             in case recordset result of
                  None \<Rightarrow> query_catch (ThrownError ''TypeError'' ''Cannot read properties of undefined'') s3
                | Some rows \<Rightarrow>
                    (Inr \<lparr> r_server = server (q_connection args),
                           r_database = database (q_connection args),
                           r_query = finalQuery_of (security cfg)
                              (case arg_limit args of None \<Rightarrow> 1000 | Some l \<Rightarrow> l)
                              (sanitizeQuery (arg_query args)),
                           r_rowCount = length rows,
                           r_executionTime = now2 - startTime,
                           r_data = rows \<rparr>, s3)))"
  using assms
  by (simp add: handleQuery_def Let_def statement_sent_def count_query_def)

lemma handleQuery_total:
  assumes "handleQuery db cfg args startTime now1 now2 s = (r, s')"
  shows "totalQueries (metrics s') = totalQueries (metrics s) + 1"
proof (cases "isValid (validateQuery (security cfg) (arg_query args))")
  case False
  with assms show ?thesis
    by (auto simp: handleQuery_def query_catch_def Let_def)
next
  case True
  obtain c s1 where g: "getConnection db cfg (q_connection args) (count_query s) = (c, s1)"
    by (cases "getConnection db cfg (q_connection args) (count_query s)")
  then have t: "totalQueries (metrics s1) = totalQueries (metrics s) + 1"
    by (auto dest: getConnection_metrics(1) simp: count_query_def)
  show ?thesis
  proof (cases c)
    case (Inl e)
    with assms True g t show ?thesis
      by (auto simp: handleQuery_def query_catch_def Let_def count_query_def)
  next
    case (Inr pool)
    with assms True g t show ?thesis
      by (auto simp: handleQuery_unfold query_catch_def Let_def split: sum.splits option.splits)
  qed
qed

lemma handleQuery_success:
  assumes "handleQuery db cfg args startTime now1 now2 s = (Inr resp, s')"
  shows "failedQueries (metrics s') = failedQueries (metrics s)"
    and "avgExecutionTime (metrics s') =
           (avgExecutionTime (metrics s) + of_int (now1 - startTime))
           / of_nat (totalQueries (metrics s) + 1)"
proof -
  have v: "isValid (validateQuery (security cfg) (arg_query args))"
    using assms by (auto simp: handleQuery_def query_catch_def Let_def split: if_splits)
  obtain c s1 where g: "getConnection db cfg (q_connection args) (count_query s) = (c, s1)"
    by (cases "getConnection db cfg (q_connection args) (count_query s)")
  have "\<exists>pool. c = Inr pool"
    using assms v g
    by (cases c) (auto simp: handleQuery_def query_catch_def Let_def count_query_def)
  then obtain pool where c: "c = Inr pool" ..
  have m: "totalQueries (metrics s1) = totalQueries (metrics s) + 1"
      "avgExecutionTime (metrics s1) = avgExecutionTime (metrics s)"
      "failedQueries (metrics s1) = failedQueries (metrics s)"
    using g c by (auto dest: getConnection_metrics simp: count_query_def)
  show "failedQueries (metrics s') = failedQueries (metrics s)"
    using assms v g c m
    by (auto simp: handleQuery_unfold query_catch_def Let_def split: sum.splits option.splits)
  show "avgExecutionTime (metrics s') =
           (avgExecutionTime (metrics s) + of_int (now1 - startTime))
           / of_nat (totalQueries (metrics s) + 1)"
    using assms v g c m
    by (auto simp: handleQuery_unfold query_catch_def Let_def split: sum.splits option.splits)
qed

lemma handleQuery_failure:
  assumes "handleQuery db cfg args startTime now1 now2 s = (Inl e, s')"
  shows "failedQueries (metrics s') > failedQueries (metrics s)"
proof (cases "isValid (validateQuery (security cfg) (arg_query args))")
  case False
  with assms show ?thesis
    by (auto simp: handleQuery_def query_catch_def Let_def)
next
  case True
  obtain c s1 where g: "getConnection db cfg (q_connection args) (count_query s) = (c, s1)"
    by (cases "getConnection db cfg (q_connection args) (count_query s)")
  then have t: "failedQueries (metrics s1) \<ge> failedQueries (metrics s)"
    by (auto dest: getConnection_metrics(3) simp: count_query_def)
  show ?thesis
  proof (cases c)
    case (Inl e)
    with assms True g t show ?thesis
      by (auto simp: handleQuery_def query_catch_def Let_def count_query_def)
  next
    case (Inr pool)
    with assms True g t show ?thesis
      by (auto simp: handleQuery_unfold query_catch_def Let_def split: sum.splits option.splits)
  qed
qed

lemma handleQuery_execution_raises:
  assumes "isValid (validateQuery (security cfg) (arg_query args))"
    and g: "getConnection db cfg (q_connection args) (count_query s) = (Inr pool, s1)"
    and "query_answer db (calls s1) pool (statement_sent cfg args) [] = Inl e"
  shows "handleQuery db cfg args startTime now1 now2 s =
           (Inl e, s1\<lparr>calls := calls s1 @ [Query pool (statement_sent cfg args) []],
                      metrics := (metrics s1)\<lparr>failedQueries := failedQueries (metrics s1) + 1\<rparr>\<rparr>)"
    and "failedQueries (metrics s1) = failedQueries (metrics s)"
    and "avgExecutionTime (metrics s1) = avgExecutionTime (metrics s)"
    and "totalQueries (metrics s1) = totalQueries (metrics s) + 1"
  using assms getConnection_metrics[OF g]
  by (auto simp: handleQuery_unfold query_catch_def Let_def count_query_def)

text \<open>
  Claim C3, as the code has it. Every call of \<open>handleQuery\<close> counts itself in
  \<open>totalQueries\<close> on entry, so the counter is one higher after the call whether it
  succeeded or failed. When the call succeeds, \<open>failedQueries\<close> is unchanged and the
  average becomes \<open>(avg + elapsed) / totalQueries\<close>, with the counter already incremented.
  When the database raises on the query, the same error is raised again, \<open>failedQueries\<close>
  is one higher and the average is unchanged.
\<close>

theorem handleQuery_metrics:
  assumes run: "handleQuery db cfg args startTime now1 now2 s = (r, s')"
  shows "totalQueries (metrics s') = totalQueries (metrics s) + 1 \<and>
         (\<forall>resp. r = Inr resp \<longrightarrow>
            failedQueries (metrics s') = failedQueries (metrics s) \<and>
            avgExecutionTime (metrics s') =
              (avgExecutionTime (metrics s) + of_int (now1 - startTime))
              / of_nat (totalQueries (metrics s'))) \<and>
         (\<forall>pool s1 e.
            isValid (validateQuery (security cfg) (arg_query args)) \<and>
            getConnection db cfg (q_connection args) (count_query s) = (Inr pool, s1) \<and>
            query_answer db (calls s1) pool (statement_sent cfg args) [] = Inl e \<longrightarrow>
            r = Inl e \<and>
            failedQueries (metrics s') = failedQueries (metrics s) + 1 \<and>
            avgExecutionTime (metrics s') = avgExecutionTime (metrics s))"
proof (intro conjI allI impI)
  show total: "totalQueries (metrics s') = totalQueries (metrics s) + 1"
    using run by (rule handleQuery_total)
  fix resp
  assume ok: "r = Inr resp"
  with run show "failedQueries (metrics s') = failedQueries (metrics s)"
    by (auto dest: handleQuery_success(1))
  from run ok total show "avgExecutionTime (metrics s') =
              (avgExecutionTime (metrics s) + of_int (now1 - startTime))
              / of_nat (totalQueries (metrics s'))"
    by (auto dest: handleQuery_success(2))
next
  fix pool s1 e
  assume h: "isValid (validateQuery (security cfg) (arg_query args)) \<and>
            getConnection db cfg (q_connection args) (count_query s) = (Inr pool, s1) \<and>
            query_answer db (calls s1) pool (statement_sent cfg args) [] = Inl e"
  then have v: "isValid (validateQuery (security cfg) (arg_query args))"
    and g: "getConnection db cfg (q_connection args) (count_query s) = (Inr pool, s1)"
    and q: "query_answer db (calls s1) pool (statement_sent cfg args) [] = Inl e"
    by simp_all
  have eq: "handleQuery db cfg args startTime now1 now2 s =
           (Inl e, s1\<lparr>calls := calls s1 @ [Query pool (statement_sent cfg args) []],
                      metrics := (metrics s1)\<lparr>failedQueries := failedQueries (metrics s1) + 1\<rparr>\<rparr>)"
    using v g q by (rule handleQuery_execution_raises(1))
  have m: "failedQueries (metrics s1) = failedQueries (metrics s)"
      "avgExecutionTime (metrics s1) = avgExecutionTime (metrics s)"
    using v g q by (rule handleQuery_execution_raises(2), rule handleQuery_execution_raises(3))
  from run eq show "r = Inl e" by simp
  from run eq m show "failedQueries (metrics s') = failedQueries (metrics s) + 1" by auto
  from run eq m show "avgExecutionTime (metrics s') = avgExecutionTime (metrics s)" by auto
qed

text \<open>
  The claim says that a failing call does not increment \<open>totalQueries\<close>. On a database
  that fails the query, the counter goes from 0 to 1.
\<close>

theorem handleQuery_failed_call_counted:
  "fst (handleQuery failing_database DEFAULT_CONFIG select_query_args 100 130 131 initial_state) =
     Inl (ThrownError ''RequestError'' ''Invalid object name'') \<and>
   totalQueries (metrics initial_state) = 0 \<and>
   totalQueries (metrics (snd (handleQuery failing_database DEFAULT_CONFIG select_query_args
      100 130 131 initial_state))) = 1"
  by code_simp

lemma select_query_valid:
  "isValid (validateQuery (security DEFAULT_CONFIG) (arg_query select_query_args))"
  by code_simp

lemma busy_success:
  "fst (handleQuery accepting_database DEFAULT_CONFIG select_query_args 100 110 111 busy_state) =
     Inr \<lparr> r_server = ''db1'', r_database = Some ''shop'',
           r_query = ''SELECT TOP 5 * FROM Customers'', r_rowCount = 2, r_executionTime = 11,
           r_data = [[(''COLUMN_NAME'', JStr ''id'')], [(''COLUMN_NAME'', JStr ''name'')]] \<rparr>"
  by code_simp

lemma failing_connects:
  "getConnection failing_database DEFAULT_CONFIG (q_connection select_query_args)
     (count_query initial_state) =
     (Inr (connected_pool (make_poolConfig DEFAULT_CONFIG example_connection)),
      (count_query initial_state)
        \<lparr>calls := calls (count_query initial_state) @
                    [Connect (make_poolConfig DEFAULT_CONFIG example_connection)],
         connectionPools := (connectionPools (count_query initial_state))
           (createConnectionKey example_connection \<mapsto>
              connected_pool (make_poolConfig DEFAULT_CONFIG example_connection)),
         metrics := (metrics (count_query initial_state))
           \<lparr>connectionCount := connectionCount (metrics (count_query initial_state)) + 1\<rparr>\<rparr>)"
  by (simp add: getConnection_def open_pool_ok select_query_args_def count_query_def
        initial_state_def failing_database_def)

theorem handleQuery_metrics_witness:
  "totalQueries (metrics busy_state) = 2 \<and> avgExecutionTime (metrics busy_state) = 40 \<and>
   \<not> isl (fst (handleQuery accepting_database DEFAULT_CONFIG select_query_args 100 110 111 busy_state)) \<and>
   totalQueries (metrics (snd (handleQuery accepting_database DEFAULT_CONFIG select_query_args
      100 110 111 busy_state))) = 3 \<and>
   failedQueries (metrics (snd (handleQuery accepting_database DEFAULT_CONFIG select_query_args
      100 110 111 busy_state))) = 0 \<and>
   avgExecutionTime (metrics (snd (handleQuery accepting_database DEFAULT_CONFIG select_query_args
      100 110 111 busy_state))) = 50 / 3 \<and>
   (50 / 3 :: rat) \<noteq> 40 + (10 - 40) / 3 \<and>
   isValid (validateQuery (security DEFAULT_CONFIG) (arg_query select_query_args)) \<and>
   fst (handleQuery failing_database DEFAULT_CONFIG select_query_args 100 130 131 initial_state) =
     Inl (ThrownError ''RequestError'' ''Invalid object name'') \<and>
   failedQueries (metrics (snd (handleQuery failing_database DEFAULT_CONFIG select_query_args
      100 130 131 initial_state))) = 1 \<and>
   avgExecutionTime (metrics (snd (handleQuery failing_database DEFAULT_CONFIG select_query_args
      100 130 131 initial_state))) = 0"
proof -
  let ?ok = "handleQuery accepting_database DEFAULT_CONFIG select_query_args 100 110 111 busy_state"
  let ?bad = "handleQuery failing_database DEFAULT_CONFIG select_query_args 100 130 131 initial_state"
  have busy: "totalQueries (metrics busy_state) = 2" "avgExecutionTime (metrics busy_state) = 40"
      "failedQueries (metrics busy_state) = 0"
    by (simp_all add: busy_state_def)
  have init: "failedQueries (metrics initial_state) = 0" "avgExecutionTime (metrics initial_state) = 0"
    by (simp_all add: initial_state_def)
  note ok = handleQuery_metrics
    [where db = accepting_database and cfg = DEFAULT_CONFIG and args = select_query_args
       and startTime = 100 and ?now1.0 = 110 and ?now2.0 = 111 and s = busy_state
       and r = "fst ?ok" and s' = "snd ?ok", OF prod.collapse [symmetric]]
  note bad = handleQuery_metrics
    [where db = failing_database and cfg = DEFAULT_CONFIG and args = select_query_args
       and startTime = 100 and ?now1.0 = 130 and ?now2.0 = 131 and s = initial_state
       and r = "fst ?bad" and s' = "snd ?bad", OF prod.collapse [symmetric]]
  have raises: "query_answer failing_database c p t i = Inl (ThrownError ''RequestError'' ''Invalid object name'')"
    for c p t i by (simp add: failing_database_def)
  from ok busy_success busy have a: "\<not> isl (fst ?ok)" "totalQueries (metrics (snd ?ok)) = 3"
      "failedQueries (metrics (snd ?ok)) = 0" "avgExecutionTime (metrics (snd ?ok)) = 50 / 3"
    by simp_all
  from bad select_query_valid failing_connects raises
  have c: "fst ?bad = Inl (ThrownError ''RequestError'' ''Invalid object name'') \<and>
      failedQueries (metrics (snd ?bad)) = failedQueries (metrics initial_state) + 1 \<and>
      avgExecutionTime (metrics (snd ?bad)) = avgExecutionTime (metrics initial_state)"
    by blast
  with init have b: "fst ?bad = Inl (ThrownError ''RequestError'' ''Invalid object name'')"
      "failedQueries (metrics (snd ?bad)) = 1" "avgExecutionTime (metrics (snd ?bad)) = 0"
    by simp_all
  show ?thesis
    using busy a b select_query_valid by simp
qed

section \<open>The row limit\<close>

lemma last_dropWhile:
  assumes "dropWhile P ys \<noteq> []"
  shows "last (dropWhile P ys) = last ys"
proof -
  have "ys = takeWhile P ys @ dropWhile P ys" by simp
  then have "last ys = last (takeWhile P ys @ dropWhile P ys)" by simp
  also have "\<dots> = last (dropWhile P ys)" using assms by (rule last_appendR)
  finally show ?thesis by simp
qed

lemma dropWhile_trim: "dropWhile is_space (trim s) = trim s"
proof (cases "trim s = []")
  case True
  then show ?thesis by simp
next
  case False
  let ?z = "dropWhile is_space s"
  let ?w = "dropWhile is_space (rev ?z)"
  from False have w: "?w \<noteq> []" by (simp add: trim_def)
  have z: "?z \<noteq> []"
  proof
    assume "?z = []"
    then have "?w = dropWhile is_space (rev [])" by (simp only:)
    with w show False by simp
  qed
  have "hd (trim s) = last ?w" using w by (simp add: trim_def hd_rev)
  also have "\<dots> = last (rev ?z)" using w by (rule last_dropWhile)
  also have "\<dots> = hd ?z" using z by (simp add: last_rev)
  finally have "hd (trim s) = hd ?z" .
  moreover have "\<not> is_space (hd ?z)" using z by (rule hd_dropWhile)
  ultimately have "\<not> is_space (hd (trim s))" by simp
  with False show ?thesis by (cases "trim s") simp_all
qed

lemma trim_trim: "trim (trim s) = trim s"
proof -
  have "trim (trim s) = rev (dropWhile is_space (rev (trim s)))"
    by (simp add: trim_def[of "trim s"] dropWhile_trim)
  also have "\<dots> = rev (dropWhile is_space (dropWhile is_space (rev (dropWhile is_space s))))"
    by (simp add: trim_def)
  also have "\<dots> = trim s"
    by (simp add: trim_def)
  finally show ?thesis .
qed

lemma trim_sanitizeQuery: "trim (sanitizeQuery query) = sanitizeQuery query"
  by (simp add: sanitizeQuery_def trim_trim)

lemma replace_select_match:
  assumes "startsWith (toLowerCase q) ''select''" and "drop 6 q = d # r" and "is_space d"
  shows "replace_select q repl = repl @ dropWhile is_space (drop 6 q)"
  using assms by (simp add: replace_select_def)

lemma finalQuery_of_inject:
  assumes "trim q = q" and "n \<noteq> 0" and "\<not> includes_str (toLowerCase q) '' top ''"
    and "startsWith (toLowerCase q) ''select''" and "drop 6 q = d # r" and "is_space d"
  shows "finalQuery_of sec n q =
           ''SELECT TOP '' @ show_int (min n (maxRowsPerQuery sec)) @ '' '' @
           dropWhile is_space (drop 6 q)"
  using assms by (simp add: finalQuery_of_def Let_def replace_select_def)

lemma finalQuery_of_unchanged:
  assumes "trim q = q"
    and "n = 0 \<or> includes_str (toLowerCase q) '' top '' \<or> \<not> startsWith (toLowerCase q) ''select''"
  shows "finalQuery_of sec n q = q"
  using assms by (auto simp: finalQuery_of_def Let_def)

lemma handleQuery_sends:
  assumes "isValid (validateQuery (security cfg) (arg_query args))"
    and "getConnection db cfg (q_connection args) (count_query s) = (Inr pool, s1)"
  shows "calls (snd (handleQuery db cfg args startTime now1 now2 s)) =
           calls s1 @ [Query pool (statement_sent cfg args) []]"
  using assms
  by (auto simp: handleQuery_unfold query_catch_def Let_def split: sum.splits option.splits)

text \<open>
  Claim C1, as the code has it. When the text passes validation and a connection is
  obtained, the statement passed to the database is \<^verbatim>\<open>USE [db]; \<close> followed by the final
  query built from the sanitized text \<open>q\<close> and the limit \<open>n\<close> (1000 when none is given).
  If \<open>n\<close> is not zero, the lower-cased \<open>q\<close> holds no \<^verbatim>\<open>' top '\<close> and \<open>q\<close> starts with
  \<^verbatim>\<open>select\<close> followed by white space, the final query is \<^verbatim>\<open>SELECT TOP k \<close> and the rest of
  \<open>q\<close> after that white space, with \<open>k = min n maxRowsPerQuery\<close>, which exceeds neither
  \<open>n\<close> nor \<open>maxRowsPerQuery\<close>. If \<open>n\<close> is zero, or the lower-cased \<open>q\<close> holds \<^verbatim>\<open>' top '\<close>, or
  \<open>q\<close> does not start with \<^verbatim>\<open>select\<close>, the final query is \<open>q\<close> itself, with no cap added.
\<close>

theorem handleQuery_row_limit:
  assumes valid: "isValid (validateQuery (security cfg) (arg_query args))"
    and conn: "getConnection db cfg (q_connection args) (count_query s) = (Inr pool, s1)"
    and q: "q = sanitizeQuery (arg_query args)"
    and n: "n = (case arg_limit args of None \<Rightarrow> 1000 | Some l \<Rightarrow> l)"
  shows "calls (snd (handleQuery db cfg args startTime now1 now2 s)) =
           calls s1 @
           [Query pool
              (''USE ['' @ database_text (database (q_connection args)) @ '']; '' @
               finalQuery_of (security cfg) n q) []] \<and>
         (n \<noteq> 0 \<and> \<not> includes_str (toLowerCase q) '' top '' \<and>
          startsWith (toLowerCase q) ''select'' \<and> (\<exists>d r. drop 6 q = d # r \<and> is_space d) \<longrightarrow>
            finalQuery_of (security cfg) n q =
              ''SELECT TOP '' @ show_int (min n (maxRowsPerQuery (security cfg))) @ '' '' @
              dropWhile is_space (drop 6 q)) \<and>
         (n = 0 \<or> includes_str (toLowerCase q) '' top '' \<or>
          \<not> startsWith (toLowerCase q) ''select'' \<longrightarrow>
            finalQuery_of (security cfg) n q = q) \<and>
         min n (maxRowsPerQuery (security cfg)) \<le> maxRowsPerQuery (security cfg) \<and>
         min n (maxRowsPerQuery (security cfg)) \<le> n"
proof -
  have t: "trim q = q"
    using q by (simp add: trim_sanitizeQuery)
  have sent: "calls (snd (handleQuery db cfg args startTime now1 now2 s)) =
           calls s1 @
           [Query pool
              (''USE ['' @ database_text (database (q_connection args)) @ '']; '' @
               finalQuery_of (security cfg) n q) []]"
    using handleQuery_sends [OF valid conn] q n by (simp add: statement_sent_def)
  have inject: "finalQuery_of (security cfg) n q =
              ''SELECT TOP '' @ show_int (min n (maxRowsPerQuery (security cfg))) @ '' '' @
              dropWhile is_space (drop 6 q)"
    if "n \<noteq> 0 \<and> \<not> includes_str (toLowerCase q) '' top '' \<and>
          startsWith (toLowerCase q) ''select'' \<and> (\<exists>d r. drop 6 q = d # r \<and> is_space d)"
    using that t by (auto simp: finalQuery_of_inject)
  have same: "finalQuery_of (security cfg) n q = q"
    if "n = 0 \<or> includes_str (toLowerCase q) '' top '' \<or> \<not> startsWith (toLowerCase q) ''select''"
    using that t by (rule finalQuery_of_unchanged[rotated])
  show ?thesis
    using sent inject same by simp
qed

text \<open>
  The claim says that no call returns more than \<open>min n maxRowsPerQuery\<close> rows. With
  limit 1 and a text that brings its own \<^verbatim>\<open>TOP 50000\<close>, the statement is sent as it is and
  the two rows the database answers are returned; with limit 0 a plain \<^verbatim>\<open>SELECT\<close> is sent
  with no \<^verbatim>\<open>TOP\<close> clause at all.
\<close>

theorem handleQuery_limit_not_enforced:
  "fst (handleQuery accepting_database DEFAULT_CONFIG top_query_args 100 110 111 initial_state) =
     Inr \<lparr> r_server = ''db1'', r_database = Some ''shop'',
           r_query = ''SELECT TOP 50000 * FROM Customers'', r_rowCount = 2, r_executionTime = 11,
           r_data = [[(''COLUMN_NAME'', JStr ''id'')], [(''COLUMN_NAME'', JStr ''name'')]] \<rparr> \<and>
   calls (snd (handleQuery accepting_database DEFAULT_CONFIG top_query_args 100 110 111
                 initial_state)) =
     [Connect (make_poolConfig DEFAULT_CONFIG example_connection),
      Query (connected_pool (make_poolConfig DEFAULT_CONFIG example_connection))
        ''USE [shop]; SELECT TOP 50000 * FROM Customers'' []] \<and>
   arg_limit top_query_args = Some 1 \<and>
   min 1 (maxRowsPerQuery (security DEFAULT_CONFIG)) = 1 \<and>
   calls (snd (handleQuery accepting_database DEFAULT_CONFIG zero_limit_args 100 110 111
                 initial_state)) =
     [Connect (make_poolConfig DEFAULT_CONFIG example_connection),
      Query (connected_pool (make_poolConfig DEFAULT_CONFIG example_connection))
        ''USE [shop]; SELECT * FROM Customers'' []]"
  by code_simp

lemma accepting_connects:
  "getConnection accepting_database DEFAULT_CONFIG (q_connection select_query_args)
     (count_query initial_state) =
     (Inr (connected_pool (make_poolConfig DEFAULT_CONFIG example_connection)),
      (count_query initial_state)
        \<lparr>calls := calls (count_query initial_state) @
                    [Connect (make_poolConfig DEFAULT_CONFIG example_connection)],
         connectionPools := (connectionPools (count_query initial_state))
           (createConnectionKey example_connection \<mapsto>
              connected_pool (make_poolConfig DEFAULT_CONFIG example_connection)),
         metrics := (metrics (count_query initial_state))
           \<lparr>connectionCount := connectionCount (metrics (count_query initial_state)) + 1\<rparr>\<rparr>)"
  by (simp add: getConnection_def open_pool_ok select_query_args_def count_query_def
        initial_state_def accepting_database_def)

lemma select_query_sanitized:
  "sanitizeQuery (arg_query select_query_args) = ''SELECT * FROM Customers''"
  by code_simp

lemma select_query_shape:
  "\<not> includes_str (toLowerCase ''SELECT * FROM Customers'') '' top '' \<and>
   startsWith (toLowerCase ''SELECT * FROM Customers'') ''select''"
  by code_simp

theorem handleQuery_row_limit_witness:
  "isValid (validateQuery (security DEFAULT_CONFIG) (arg_query select_query_args)) \<and>
   fst (getConnection accepting_database DEFAULT_CONFIG (q_connection select_query_args)
          (count_query initial_state)) =
     Inr (connected_pool (make_poolConfig DEFAULT_CONFIG example_connection)) \<and>
   ''SELECT * FROM Customers'' = sanitizeQuery (arg_query select_query_args) \<and>
   arg_limit select_query_args = Some 5 \<and>
   (5::int) \<noteq> 0 \<and>
   \<not> includes_str (toLowerCase ''SELECT * FROM Customers'') '' top '' \<and>
   startsWith (toLowerCase ''SELECT * FROM Customers'') ''select'' \<and>
   drop 6 ''SELECT * FROM Customers'' = CHR '' '' # ''* FROM Customers'' \<and>
   is_space (CHR '' '') \<and>
   finalQuery_of (security DEFAULT_CONFIG) 5 ''SELECT * FROM Customers'' =
     ''SELECT TOP 5 * FROM Customers'' \<and>
   calls (snd (handleQuery accepting_database DEFAULT_CONFIG select_query_args 100 110 111
                 initial_state)) =
     [Connect (make_poolConfig DEFAULT_CONFIG example_connection),
      Query (connected_pool (make_poolConfig DEFAULT_CONFIG example_connection))
        ''USE [shop]; SELECT TOP 5 * FROM Customers'' []] \<and>
   arg_limit zero_limit_args = Some 0 \<and>
   finalQuery_of (security DEFAULT_CONFIG) 0 ''SELECT * FROM Customers'' =
     ''SELECT * FROM Customers''"
proof -
  let ?q = "''SELECT * FROM Customers''"
  have n: "(5::int) = (case arg_limit select_query_args of None \<Rightarrow> 1000 | Some l \<Rightarrow> l)"
    by (simp add: select_query_args_def)
  have sp: "drop 6 ?q = CHR '' '' # ''* FROM Customers''" "is_space (CHR '' '')"
    by (simp_all add: is_space_def)
  then have ex: "\<exists>d r. drop 6 ?q = d # r \<and> is_space d"
    by blast
  note lim = handleQuery_row_limit
    [where startTime = 100 and ?now1.0 = 110 and ?now2.0 = 111,
     OF select_query_valid accepting_connects select_query_sanitized [symmetric] n]
  from lim select_query_shape ex
  have fq: "finalQuery_of (security DEFAULT_CONFIG) 5 ?q =
      ''SELECT TOP '' @ show_int (min 5 (maxRowsPerQuery (security DEFAULT_CONFIG))) @ '' '' @
      dropWhile is_space (drop 6 ?q)"
    by simp
  then have fq': "finalQuery_of (security DEFAULT_CONFIG) 5 ?q = ''SELECT TOP 5 * FROM Customers''"
    by (simp add: DEFAULT_CONFIG_def show_int_def show_nat.simps is_space_def)
  from lim fq'
  have sent: "calls (snd (handleQuery accepting_database DEFAULT_CONFIG select_query_args 100 110 111
                 initial_state)) =
     [Connect (make_poolConfig DEFAULT_CONFIG example_connection),
      Query (connected_pool (make_poolConfig DEFAULT_CONFIG example_connection))
        ''USE [shop]; SELECT TOP 5 * FROM Customers'' []]"
    by (simp add: count_query_def initial_state_def database_text_def select_query_args_def
          example_connection_def)
  have same_text: "arg_query zero_limit_args = arg_query select_query_args"
      "q_connection zero_limit_args = q_connection select_query_args"
    by (simp_all add: zero_limit_args_def select_query_args_def)
  have n0: "(0::int) = (case arg_limit zero_limit_args of None \<Rightarrow> 1000 | Some l \<Rightarrow> l)"
    by (simp add: zero_limit_args_def)
  note unlimited = handleQuery_row_limit
    [where args = zero_limit_args and startTime = 100 and ?now1.0 = 110 and ?now2.0 = 111
       and db = accepting_database and cfg = DEFAULT_CONFIG and s = initial_state
       and q = ?q and n = 0,
     OF select_query_valid [folded same_text(1)] accepting_connects [folded same_text(2)]
        select_query_sanitized [folded same_text(1), symmetric] n0]
  then have fq0: "finalQuery_of (security DEFAULT_CONFIG) 0 ?q = ?q"
    by simp
  have l0: "arg_limit zero_limit_args = Some 0"
    by (simp add: zero_limit_args_def)
  with select_query_valid accepting_connects select_query_sanitized select_query_shape sp fq'
    fq0 sent
  show ?thesis
    by (simp add: select_query_args_def)
qed

section \<open>Bulk insert\<close>

text \<open>
  Claim C4. A first row with a key that is not a column of the table should fail with a
  validation error. The handler constructs the \<^verbatim>\<open>INVALID_COLUMNS\<close> error inside its own
  \<^verbatim>\<open>try\<close> block, so the \<^verbatim>\<open>catch\<close> block wraps it: what is raised carries the code
  \<^verbatim>\<open>BULK_INSERT_ERROR\<close>, the one used for failures of the database. The message still
  names the offending key and the valid columns, and no insert is sent.
\<close>

theorem handleBulkInsert_invalid_columns_wrapped:
  "fst (handleBulkInsert accepting_database DEFAULT_CONFIG bogus_bulk_args initial_state) =
     Inl (MCPError ''Bulk insert failed: Invalid columns: bogus. Valid columns: id, name''
            ''BULK_INSERT_ERROR'' (BulkDetails ''t'' 2)) \<and>
   calls (snd (handleBulkInsert accepting_database DEFAULT_CONFIG bogus_bulk_args initial_state)) =
     [Connect (make_poolConfig DEFAULT_CONFIG example_connection),
      Query (connected_pool (make_poolConfig DEFAULT_CONFIG example_connection))
        (structure_query (Some ''shop'') ''t'') []]"
  by code_simp

lemma insert_batches_step:
  assumes "i < length data"
  shows "insert_batches db pool d table cols data i tot s =
     (case query_answer db (calls s) pool (batch_text d table cols (take batchSize (drop i data)))
             (batch_inputs (batch_values cols (take batchSize (drop i data)))) of
        Inl e \<Rightarrow> (Inl e, s\<lparr>calls := calls s @ [insert_call pool d table cols (take batchSize (drop i data))]\<rparr>)
      | Inr result \<Rightarrow>
          insert_batches db pool d table cols data (i + batchSize) (tot + first_affected result)
            (s\<lparr>calls := calls s @ [insert_call pool d table cols (take batchSize (drop i data))]\<rparr>))"
  using assms
  by (subst insert_batches.simps) (simp add: Let_def insert_call_def split: sum.split)

lemma insert_batches_done:
  assumes "\<not> i < length data"
  shows "insert_batches db pool d table cols data i tot s = (Inr tot, s)"
  using assms by (subst insert_batches.simps) simp

lemma insert_batches_250:
  assumes len: "length data = 250"
    and run: "insert_batches db pool d table cols data 0 0 s = (Inr tot, s')"
  shows "\<exists>r1 r2 r3.
     query_answer db (calls s) pool (batch_text d table cols (take 100 data))
       (batch_inputs (batch_values cols (take 100 data))) = Inr r1 \<and>
     query_answer db (calls s @ [insert_call pool d table cols (take 100 data)]) pool
       (batch_text d table cols (take 100 (drop 100 data)))
       (batch_inputs (batch_values cols (take 100 (drop 100 data)))) = Inr r2 \<and>
     query_answer db
       (calls s @ [insert_call pool d table cols (take 100 data),
                   insert_call pool d table cols (take 100 (drop 100 data))]) pool
       (batch_text d table cols (drop 200 data))
       (batch_inputs (batch_values cols (drop 200 data))) = Inr r3 \<and>
     tot = first_affected r1 + first_affected r2 + first_affected r3 \<and>
     calls s' = calls s @ [insert_call pool d table cols (take 100 data),
                           insert_call pool d table cols (take 100 (drop 100 data)),
                           insert_call pool d table cols (drop 200 data)]"
proof -
  let ?c1 = "insert_call pool d table cols (take 100 data)"
  let ?c2 = "insert_call pool d table cols (take 100 (drop 100 data))"
  let ?c3 = "insert_call pool d table cols (drop 200 data)"
  let ?s1 = "s\<lparr>calls := calls s @ [?c1]\<rparr>"
  let ?s2 = "?s1\<lparr>calls := calls ?s1 @ [?c2]\<rparr>"
  let ?s3 = "?s2\<lparr>calls := calls ?s2 @ [?c3]\<rparr>"
  have last_batch: "take 100 (drop 200 data) = drop 200 data"
    using len by simp
  from run obtain r1 where
    a1: "query_answer db (calls s) pool (batch_text d table cols (take 100 data))
       (batch_inputs (batch_values cols (take 100 data))) = Inr r1"
    and run1: "insert_batches db pool d table cols data 100 (first_affected r1) ?s1 = (Inr tot, s')"
    using len by (auto simp: insert_batches_step [of 0] batchSize_def split: sum.splits)
  from run1 obtain r2 where
    a2: "query_answer db (calls ?s1) pool (batch_text d table cols (take 100 (drop 100 data)))
       (batch_inputs (batch_values cols (take 100 (drop 100 data)))) = Inr r2"
    and run2: "insert_batches db pool d table cols data 200 (first_affected r1 + first_affected r2) ?s2 =
        (Inr tot, s')"
    using len by (auto simp: insert_batches_step [of 100] batchSize_def split: sum.splits)
  from run2 obtain r3 where
    a3: "query_answer db (calls ?s2) pool (batch_text d table cols (drop 200 data))
       (batch_inputs (batch_values cols (drop 200 data))) = Inr r3"
    and run3: "insert_batches db pool d table cols data 300
        (first_affected r1 + first_affected r2 + first_affected r3) ?s3 = (Inr tot, s')"
    using len last_batch
    by (auto simp: insert_batches_step [of 200] batchSize_def split: sum.splits)
  from run3 len have fin: "tot = first_affected r1 + first_affected r2 + first_affected r3"
      "s' = ?s3"
    by (simp_all add: insert_batches_done)
  from a1 a2 a3 fin show ?thesis
    by auto
qed

lemma bulk_try_Inr:
  assumes "bulk_try db cfg config table data s = (Inr report, s')"
  shows "\<exists>pool s1 tot.
     getConnection db cfg config s = (Inr pool, s1) \<and>
     insert_batches db pool (database config) table (map fst (hd data)) data 0 0
       (s1\<lparr>calls := calls s1 @ [Query pool (structure_query (database config) table) []]\<rparr>) =
       (Inr tot, s') \<and>
     totalRowsProcessed report = length data \<and> totalRowsInserted report = tot"
  using assms
  by (auto simp: bulk_try_def Let_def
           split: prod.splits sum.splits option.splits if_splits list.splits)

text \<open>
  Claim C8. A bulk insert of 250 rows that succeeds has sent, after the schema query,
  exactly three inserts on the pool it obtained: the rows 0 to 99, 100 to 199 and 200 to
  249, in input order (batches of 100, 100 and 50 rows that together are the input). The
  report counts 250 rows processed, and as rows inserted the sum of the first
  affected-row counts of the database's three answers.
\<close>

theorem handleBulkInsert_250_rows:
  assumes data: "arg_data args = Some data" and len: "length data = 250"
    and run: "handleBulkInsert db cfg args s = (Inr report, s')"
  shows "\<exists>pool s1 r1 r2 r3.
     getConnection db cfg (b_connection args) s = (Inr pool, s1) \<and>
     calls s' =
       calls s1 @
       [Query pool (structure_query (database (b_connection args)) (arg_table args)) [],
        insert_call pool (database (b_connection args)) (arg_table args) (map fst (hd data))
          (take 100 data),
        insert_call pool (database (b_connection args)) (arg_table args) (map fst (hd data))
          (take 100 (drop 100 data)),
        insert_call pool (database (b_connection args)) (arg_table args) (map fst (hd data))
          (drop 200 data)] \<and>
     take 100 data @ take 100 (drop 100 data) @ drop 200 data = data \<and>
     length (take 100 data) = 100 \<and> length (take 100 (drop 100 data)) = 100 \<and>
     length (drop 200 data) = 50 \<and>
     query_answer db
       (calls s1 @
        [Query pool (structure_query (database (b_connection args)) (arg_table args)) []])
       pool
       (batch_text (database (b_connection args)) (arg_table args) (map fst (hd data))
          (take 100 data))
       (batch_inputs (batch_values (map fst (hd data)) (take 100 data))) = Inr r1 \<and>
     query_answer db
       (calls s1 @
        [Query pool (structure_query (database (b_connection args)) (arg_table args)) [],
         insert_call pool (database (b_connection args)) (arg_table args) (map fst (hd data))
           (take 100 data)])
       pool
       (batch_text (database (b_connection args)) (arg_table args) (map fst (hd data))
          (take 100 (drop 100 data)))
       (batch_inputs (batch_values (map fst (hd data)) (take 100 (drop 100 data)))) = Inr r2 \<and>
     query_answer db
       (calls s1 @
        [Query pool (structure_query (database (b_connection args)) (arg_table args)) [],
         insert_call pool (database (b_connection args)) (arg_table args) (map fst (hd data))
           (take 100 data),
         insert_call pool (database (b_connection args)) (arg_table args) (map fst (hd data))
           (take 100 (drop 100 data))])
       pool
       (batch_text (database (b_connection args)) (arg_table args) (map fst (hd data))
          (drop 200 data))
       (batch_inputs (batch_values (map fst (hd data)) (drop 200 data))) = Inr r3 \<and>
     totalRowsProcessed report = 250 \<and>
     totalRowsInserted report = first_affected r1 + first_affected r2 + first_affected r3"
proof -
  let ?d = "database (b_connection args)"
  let ?t = "arg_table args"
  let ?cols = "map fst (hd data)"
  from run data len
  have "bulk_try db cfg (b_connection args) ?t data s = (Inr report, s')"
    by (auto simp: handleBulkInsert_def Let_def split: prod.splits sum.splits)
  then obtain pool s1 tot where
    conn: "getConnection db cfg (b_connection args) s = (Inr pool, s1)"
    and loop: "insert_batches db pool ?d ?t ?cols data 0 0
       (s1\<lparr>calls := calls s1 @ [Query pool (structure_query ?d ?t) []]\<rparr>) = (Inr tot, s')"
    and rep: "totalRowsProcessed report = length data" "totalRowsInserted report = tot"
    using bulk_try_Inr by blast
  from insert_batches_250 [OF len loop] obtain r1 r2 r3 where
    b: "query_answer db (calls s1 @ [Query pool (structure_query ?d ?t) []]) pool
          (batch_text ?d ?t ?cols (take 100 data))
          (batch_inputs (batch_values ?cols (take 100 data))) = Inr r1"
       "query_answer db
          (calls s1 @ [Query pool (structure_query ?d ?t) [],
                       insert_call pool ?d ?t ?cols (take 100 data)]) pool
          (batch_text ?d ?t ?cols (take 100 (drop 100 data)))
          (batch_inputs (batch_values ?cols (take 100 (drop 100 data)))) = Inr r2"
       "query_answer db
          (calls s1 @ [Query pool (structure_query ?d ?t) [],
                       insert_call pool ?d ?t ?cols (take 100 data),
                       insert_call pool ?d ?t ?cols (take 100 (drop 100 data))]) pool
          (batch_text ?d ?t ?cols (drop 200 data))
          (batch_inputs (batch_values ?cols (drop 200 data))) = Inr r3"
       "tot = first_affected r1 + first_affected r2 + first_affected r3"
       "calls s' = calls s1 @ [Query pool (structure_query ?d ?t) [],
                       insert_call pool ?d ?t ?cols (take 100 data),
                       insert_call pool ?d ?t ?cols (take 100 (drop 100 data)),
                       insert_call pool ?d ?t ?cols (drop 200 data)]"
    by auto
  have parts: "take 100 data @ take 100 (drop 100 data) @ drop 200 data = data"
  proof -
    have "take 100 (drop 100 data) @ drop 200 data = drop 100 data"
      using append_take_drop_id [of 100 "drop 100 data"] by simp
    then show ?thesis by simp
  qed
  have lens: "length (take 100 data) = 100" "length (take 100 (drop 100 data)) = 100"
      "length (drop 200 data) = 50"
    using len by simp_all
  have "getConnection db cfg (b_connection args) s = (Inr pool, s1) \<and>
     calls s' =
       calls s1 @
       [Query pool (structure_query ?d ?t) [],
        insert_call pool ?d ?t ?cols (take 100 data),
        insert_call pool ?d ?t ?cols (take 100 (drop 100 data)),
        insert_call pool ?d ?t ?cols (drop 200 data)] \<and>
     take 100 data @ take 100 (drop 100 data) @ drop 200 data = data \<and>
     length (take 100 data) = 100 \<and> length (take 100 (drop 100 data)) = 100 \<and>
     length (drop 200 data) = 50 \<and>
     query_answer db (calls s1 @ [Query pool (structure_query ?d ?t) []]) pool
       (batch_text ?d ?t ?cols (take 100 data))
       (batch_inputs (batch_values ?cols (take 100 data))) = Inr r1 \<and>
     query_answer db
       (calls s1 @ [Query pool (structure_query ?d ?t) [],
                    insert_call pool ?d ?t ?cols (take 100 data)]) pool
       (batch_text ?d ?t ?cols (take 100 (drop 100 data)))
       (batch_inputs (batch_values ?cols (take 100 (drop 100 data)))) = Inr r2 \<and>
     query_answer db
       (calls s1 @ [Query pool (structure_query ?d ?t) [],
                    insert_call pool ?d ?t ?cols (take 100 data),
                    insert_call pool ?d ?t ?cols (take 100 (drop 100 data))]) pool
       (batch_text ?d ?t ?cols (drop 200 data))
       (batch_inputs (batch_values ?cols (drop 200 data))) = Inr r3 \<and>
     totalRowsProcessed report = 250 \<and>
     totalRowsInserted report = first_affected r1 + first_affected r2 + first_affected r3"
    using conn b(1) b(2) b(3) b(5) parts lens rep(1) rep(2) [unfolded b(4)] len
    by (intro conjI) simp_all
  then show ?thesis
    by (intro exI)
qed

lemma insert_batches_never_failing:
  "(\<forall>h p t i. \<not> isl (query_answer db h p t i)) \<Longrightarrow>
   \<not> isl (fst (insert_batches db pool d table cols data i tot s))"
proof (induction db pool d table cols data i tot s rule: insert_batches.induct)
  case (1 db pool d table dataColumns data i totalInserted s)
  show ?case
  proof (cases "i < length data")
    case False
    then show ?thesis by (subst insert_batches.simps) simp
  next
    case True
    let ?batch = "take batchSize (drop i data)"
    let ?inputs = "batch_inputs (batch_values dataColumns ?batch)"
    let ?text = "batch_text d table dataColumns ?batch"
    from "1.prems" have "\<not> isl (query_answer db (calls s) pool ?text ?inputs)"
      by blast
    then obtain r where r: "query_answer db (calls s) pool ?text ?inputs = Inr r"
      by (cases "query_answer db (calls s) pool ?text ?inputs") auto
    from "1.IH" [OF True refl refl refl refl r "1.prems"]
    show ?thesis
      using True r by (subst insert_batches.simps) (simp add: Let_def)
  qed
qed

lemma length_batch_inputs: "length (batch_inputs vs) = length vs"
  by (simp add: batch_inputs_def)

lemma many_rows_first: "many_rows = [(''id'', JNum 1)] # replicate 249 [(''id'', JNum 1)]"
  by (simp add: many_rows_def numeral_eq_Suc)

lemma length_many_rows: "length many_rows = 250"
  by (simp add: many_rows_def)

lemma accepting_never_fails: "\<forall>h p t i. \<not> isl (query_answer accepting_database h p t i)"
  by (simp add: accepting_database_def)

lemma many_rows_succeed:
  "\<not> isl (fst (handleBulkInsert accepting_database DEFAULT_CONFIG many_rows_args initial_state))"
proof -
  let ?pool = "connected_pool (make_poolConfig DEFAULT_CONFIG example_connection)"
  obtain s1 where conn:
    "getConnection accepting_database DEFAULT_CONFIG example_connection initial_state =
       (Inr ?pool, s1)"
    using first_connection by simp
  let ?s2 = "s1\<lparr>calls := calls s1 @ [Query ?pool (structure_query (Some ''shop'') ''t'') []]\<rparr>"
  obtain r s3 where loop:
    "insert_batches accepting_database ?pool (Some ''shop'') ''t'' [''id''] many_rows 0 0 ?s2 =
       (r, s3)"
    by (cases "insert_batches accepting_database ?pool (Some ''shop'') ''t'' [''id''] many_rows 0 0 ?s2")
  with insert_batches_never_failing [OF accepting_never_fails,
      of ?pool "Some ''shop''" "''t''" "[''id'']" many_rows 0 0 ?s2]
  obtain tot where "r = Inr tot"
    by (cases r) auto
  with loop conn show ?thesis
    by (simp add: handleBulkInsert_def bulk_try_def many_rows_args_def Let_def
          length_many_rows example_connection_def accepting_database_def many_rows_first)
qed

lemma many_rows_batches:
  "take 100 many_rows = replicate 100 [(''id'', JNum 1)]"
  "take 100 (drop 100 many_rows) = replicate 100 [(''id'', JNum 1)]"
  "drop 200 many_rows = replicate 50 [(''id'', JNum 1)]"
  "map fst (hd many_rows) = [''id'']"
  by (simp_all add: many_rows_def)

lemma length_batch_values_id:
  "length (batch_values [''id''] (replicate n [(''id'', JNum 1)])) = n"
  by (induction n) (simp_all add: batch_values_def)

lemma accepting_affected:
  assumes "query_answer accepting_database h p t i = Inr r"
  shows "first_affected r = length i"
  using assms by (auto simp: accepting_database_def first_affected_def)

theorem handleBulkInsert_250_rows_witness:
  "arg_data many_rows_args = Some many_rows \<and> length many_rows = 250 \<and>
   (\<exists>report s'.
      handleBulkInsert accepting_database DEFAULT_CONFIG many_rows_args initial_state =
        (Inr report, s') \<and>
      totalRowsProcessed report = 250 \<and> totalRowsInserted report = 250 \<and>
      calls s' =
        [Connect (make_poolConfig DEFAULT_CONFIG example_connection),
         Query (connected_pool (make_poolConfig DEFAULT_CONFIG example_connection))
           (structure_query (Some ''shop'') ''t'') [],
         insert_call (connected_pool (make_poolConfig DEFAULT_CONFIG example_connection))
           (Some ''shop'') ''t'' [''id''] (replicate 100 [(''id'', JNum 1)]),
         insert_call (connected_pool (make_poolConfig DEFAULT_CONFIG example_connection))
           (Some ''shop'') ''t'' [''id''] (replicate 100 [(''id'', JNum 1)]),
         insert_call (connected_pool (make_poolConfig DEFAULT_CONFIG example_connection))
           (Some ''shop'') ''t'' [''id''] (replicate 50 [(''id'', JNum 1)])])"
proof -
  let ?X = "handleBulkInsert accepting_database DEFAULT_CONFIG many_rows_args initial_state"
  let ?P = "connected_pool (make_poolConfig DEFAULT_CONFIG example_connection)"
  let ?row = "[(''id'', JNum 1)]"
  have data: "arg_data many_rows_args = Some many_rows"
    by (simp add: many_rows_args_def)
  have args: "b_connection many_rows_args = example_connection" "arg_table many_rows_args = ''t''"
      "database example_connection = Some ''shop''"
    by (simp_all add: many_rows_args_def example_connection_def)
  obtain report s' where run: "?X = (Inr report, s')"
    using many_rows_succeed by (cases ?X, cases "fst ?X") auto
  from handleBulkInsert_250_rows [OF data length_many_rows run]
  obtain pool s1 r1 r2 r3 where
    conn: "getConnection accepting_database DEFAULT_CONFIG example_connection initial_state =
             (Inr pool, s1)"
    and sent: "calls s' =
       calls s1 @
       [Query pool (structure_query (Some ''shop'') ''t'') [],
        insert_call pool (Some ''shop'') ''t'' [''id''] (replicate 100 ?row),
        insert_call pool (Some ''shop'') ''t'' [''id''] (replicate 100 ?row),
        insert_call pool (Some ''shop'') ''t'' [''id''] (replicate 50 ?row)]"
    and a1: "query_answer accepting_database
       (calls s1 @ [Query pool (structure_query (Some ''shop'') ''t'') []]) pool
       (batch_text (Some ''shop'') ''t'' [''id''] (replicate 100 ?row))
       (batch_inputs (batch_values [''id''] (replicate 100 ?row))) = Inr r1"
    and a2: "query_answer accepting_database
       (calls s1 @ [Query pool (structure_query (Some ''shop'') ''t'') [],
          insert_call pool (Some ''shop'') ''t'' [''id''] (replicate 100 ?row)]) pool
       (batch_text (Some ''shop'') ''t'' [''id''] (replicate 100 ?row))
       (batch_inputs (batch_values [''id''] (replicate 100 ?row))) = Inr r2"
    and a3: "query_answer accepting_database
       (calls s1 @ [Query pool (structure_query (Some ''shop'') ''t'') [],
          insert_call pool (Some ''shop'') ''t'' [''id''] (replicate 100 ?row),
          insert_call pool (Some ''shop'') ''t'' [''id''] (replicate 100 ?row)]) pool
       (batch_text (Some ''shop'') ''t'' [''id''] (replicate 50 ?row))
       (batch_inputs (batch_values [''id''] (replicate 50 ?row))) = Inr r3"
    and processed: "totalRowsProcessed report = 250"
    and inserted: "totalRowsInserted report = first_affected r1 + first_affected r2 + first_affected r3"
    unfolding args many_rows_batches by blast
  from conn first_connection have p: "pool = ?P"
      "calls s1 = [Connect (make_poolConfig DEFAULT_CONFIG example_connection)]"
    by (simp_all add: initial_state_def)
  have "first_affected r1 = 100" "first_affected r2 = 100" "first_affected r3 = 50"
    using accepting_affected [OF a1] accepting_affected [OF a2] accepting_affected [OF a3]
    by (simp_all add: length_batch_inputs length_batch_values_id)
  with inserted have "totalRowsInserted report = 250"
    by simp
  with run processed sent p data length_many_rows show ?thesis
    by simp
qed

end
